theory Spec2Isabelle
  imports Main
begin

text \<open>
  The content script \<open>content.js\<close> of the Bilingual ARD extension: it watches the
  captions of the ARD player, has each new caption text translated once, keeps the
  translations in a cache, and shows them above the captions while playback is paused.
  The definitions follow the script function by function and keep its names; line
  numbers are those of \<open>src/content.js\<close>. The script runs as tasks of one thread: each
  callback is a function on the state, and a session is a sequence of events.
\<close>

section \<open>Strings\<close>

text \<open>
  A JavaScript string is modelled as a \<open>char list\<close> whose characters are read as code
  units below 256 (the Latin-1 range, which holds the German umlauts). Within that range
  the functions below are \<open>String.prototype.trim\<close>, \<open>toLowerCase\<close> and the regular
  expression classes \<open>\s\<close> and \<open>\w\<close> of the source.
\<close>

definition is_space :: "char \<Rightarrow> bool" where
  \<comment> \<open>\<open>\s\<close>, and the characters \<open>trim\<close> strips: tab, LF, VT, FF, CR, space, NBSP.\<close>
  "is_space c = (c \<in> set [CHR 0x09, CHR 0x0A, CHR 0x0B, CHR 0x0C, CHR 0x0D, CHR '' '', CHR 0xA0])"

definition is_word :: "char \<Rightarrow> bool" where
  \<comment> \<open>\<open>\w\<close> without the unicode flag: \<open>[A-Za-z0-9_]\<close>.\<close>
  "is_word c =
     (let n = (of_char c :: nat) in
      (65 \<le> n \<and> n \<le> 90) \<or> (97 \<le> n \<and> n \<le> 122) \<or> (48 \<le> n \<and> n \<le> 57) \<or> n = 95)"

definition toLowerCase_char :: "char \<Rightarrow> char" where
  \<comment> \<open>\<open>A\<close>-\<open>Z\<close> and the Latin-1 capitals \<open>0xC0\<close>-\<open>0xDE\<close> (without the sign \<open>0xD7\<close>).\<close>
  "toLowerCase_char c =
     (let n = (of_char c :: nat) in
      if (65 \<le> n \<and> n \<le> 90) \<or> (192 \<le> n \<and> n \<le> 222 \<and> n \<noteq> 215)
      then char_of (n + 32) else c)"

definition toUpperCase_char :: "char \<Rightarrow> char" where
  \<comment> \<open>The source upper-cases only matches of its regular expression: a period,
      white space and one \<open>\w\<close> character. On those, \<open>toUpperCase\<close> changes \<open>a\<close>-\<open>z\<close> alone.\<close>
  "toUpperCase_char c =
     (let n = (of_char c :: nat) in
      if 97 \<le> n \<and> n \<le> 122 then char_of (n - 32) else c)"

definition toLowerCase :: "string \<Rightarrow> string" where
  "toLowerCase s = map toLowerCase_char s"

definition toUpperCase :: "string \<Rightarrow> string" where
  "toUpperCase s = map toUpperCase_char s"

definition trim :: "string \<Rightarrow> string" where
  "trim s = rev (dropWhile is_space (rev (dropWhile is_space s)))"

definition caption_text :: "string \<Rightarrow> string" where
  \<comment> \<open>\<open>innerText.trim().replace(/\n/g, ' ')\<close>, lines 95 and 129.\<close>
  "caption_text innerText = map (\<lambda>c. if c = CHR 0x0A then CHR '' '' else c) (trim innerText)"

text \<open>
  \<open>replace(/(^\w|\.\s*\w)/g, match => match.toUpperCase())\<close> on the lower-cased text
  (lines 158-160). The scan goes left to right; \<open>capitalize_from\<close> is the scan at a
  position where \<open>^\<close> no longer matches: at a period it skips the white space that
  follows (\<open>\s*\<close> is greedy, and giving white space back never helps, since no white
  space is a \<open>\w\<close>) and, when a \<open>\w\<close> comes next, replaces the match and goes on behind
  it; otherwise it moves one character on.
\<close>

function capitalize_from :: "string \<Rightarrow> string" where
  "capitalize_from [] = []"
| "capitalize_from (c # cs) =
     (if c = CHR ''.'' then
        (case dropWhile is_space cs of
           [] \<Rightarrow> c # capitalize_from cs
         | w # rest \<Rightarrow>
             if is_word w
             then toUpperCase (c # takeWhile is_space cs @ [w]) @ capitalize_from rest
             else c # capitalize_from cs)
      else c # capitalize_from cs)"
  by pat_completeness auto
termination
proof (relation "measure length")
  fix c :: char and cs w rest
  assume "dropWhile is_space cs = w # rest"
  then have "length (w # rest) \<le> length cs"
    by (metis length_dropWhile_le)
  then show "(rest, c # cs) \<in> measure length"
    by simp
qed auto

definition sentence_case :: "string \<Rightarrow> string" where
  "sentence_case s =
     (case toLowerCase s of
        [] \<Rightarrow> []
      | c # cs \<Rightarrow>
          if is_word c then toUpperCase [c] @ capitalize_from cs
          else capitalize_from (c # cs))"

section \<open>The translation client\<close>

text \<open>
  What \<open>response.json()\<close> yields, and what indexing it yields: a JSON value, or
  \<open>undefined\<close>. A number is kept as the text \<open>toString\<close> gives for it; an object as its
  own properties, one pair per key.
\<close>

datatype jsval =
    JUndefined
  | JNull
  | JBool bool
  | JNum string
  | JStr string
  | JArr "jsval list"
  | JObj "(string \<times> jsval) list"

datatype error = TypeError | NetworkError | SyntaxError | TimeoutError

fun join :: "string \<Rightarrow> string list \<Rightarrow> string" where
  "join sep [] = []"
| "join sep [x] = x"
| "join sep (x # y # ys) = x @ sep @ join sep (y # ys)"

fun toString :: "jsval \<Rightarrow> string" where
  "toString JUndefined = ''undefined''"
| "toString JNull = ''null''"
| "toString (JBool b) = (if b then ''true'' else ''false'')"
| "toString (JNum n) = n"
| "toString (JStr s) = s"
| "toString (JArr xs) =
     join '','' (map (\<lambda>v. if v = JUndefined \<or> v = JNull then [] else toString v) xs)"
| "toString (JObj kvs) = ''[object Object]''"

definition array_join :: "string \<Rightarrow> jsval list \<Rightarrow> string" where
  \<comment> \<open>\<open>Array.prototype.join\<close>: \<open>undefined\<close> and \<open>null\<close> elements give the empty string.\<close>
  "array_join sep xs =
     join sep (map (\<lambda>v. if v = JUndefined \<or> v = JNull then [] else toString v) xs)"

fun index0 :: "jsval \<Rightarrow> error + jsval" where
  \<comment> \<open>\<open>v[0]\<close>: a \<open>TypeError\<close> on \<open>undefined\<close> and \<open>null\<close>, \<open>undefined\<close> where there is no
      such property.\<close>
  "index0 JUndefined = Inl TypeError"
| "index0 JNull = Inl TypeError"
| "index0 (JBool b) = Inr JUndefined"
| "index0 (JNum n) = Inr JUndefined"
| "index0 (JStr s) = Inr (case s of [] \<Rightarrow> JUndefined | c # _ \<Rightarrow> JStr [c])"
| "index0 (JArr xs) = Inr (case xs of [] \<Rightarrow> JUndefined | x # _ \<Rightarrow> x)"
| "index0 (JObj kvs) = Inr (case map_of kvs ''0'' of None \<Rightarrow> JUndefined | Some v \<Rightarrow> v)"

fun array_map :: "('a \<Rightarrow> error + 'b) \<Rightarrow> 'a list \<Rightarrow> error + 'b list" where
  \<comment> \<open>\<open>Array.prototype.map\<close> with a callback that may throw: the first throw ends it.\<close>
  "array_map f [] = Inr []"
| "array_map f (x # xs) =
     (case f x of
        Inl e \<Rightarrow> Inl e
      | Inr y \<Rightarrow> (case array_map f xs of Inl e \<Rightarrow> Inl e | Inr ys \<Rightarrow> Inr (y # ys)))"

datatype response =
    FetchRejected \<comment> \<open>\<open>fetch\<close> rejects: a network error\<close>
  | BodyNotJson \<comment> \<open>\<open>response.json()\<close> rejects\<close>
  | Body jsval

fun fetchTranslation_try :: "response \<Rightarrow> error + string" where
  \<comment> \<open>The \<open>try\<close> block, lines 150-162. Of the values here only an array has a callable
      \<open>map\<close>, so \<open>result[0].map\<close> throws on everything else.\<close>
  "fetchTranslation_try FetchRejected = Inl NetworkError"
| "fetchTranslation_try BodyNotJson = Inl SyntaxError"
| "fetchTranslation_try (Body result) =
     (case index0 result of
        Inl e \<Rightarrow> Inl e
      | Inr (JArr items) \<Rightarrow>
          (case array_map index0 items of
             Inl e \<Rightarrow> Inl e
           | Inr fragments \<Rightarrow> Inr (sentence_case (array_join '' '' fragments)))
      | Inr _ \<Rightarrow> Inl TypeError)"

definition fetchTranslation :: "response \<Rightarrow> string" where
  \<comment> \<open>The value the promise of \<open>fetchTranslation\<close> resolves to, given what the service
      answered: the \<open>catch\<close> block returns the empty string.\<close>
  "fetchTranslation r =
     (case fetchTranslation_try r of Inl e \<Rightarrow> [] | Inr translatedText \<Rightarrow> translatedText)"

definition fragments_response :: "string list \<Rightarrow> response" where
  \<comment> \<open>A well-formed answer of the service: \<open>result[0]\<close> lists one array per fragment, the
      fragment's text first.\<close>
  "fragments_response fs = Body (JArr [JArr (map (\<lambda>f. JArr [JStr f]) fs)])"

section \<open>The host document\<close>

text \<open>
  The content script reads the host page through selector queries and node properties
  and writes it through element creation, insertion and property updates. The page is
  modelled as the list of its elements in tree order, each with an identity: a node
  reference of the script is the identity, and a property is read from the current
  document at the moment the script reads it. An element carries the chain of its
  ancestor elements (\<open>path\<close>, the parent first), so \<open>parentNode\<close>, \<open>closest\<close> and the
  descendant combinator need no traversal. \<open>tagName\<close> holds the local name in lower
  case. \<open>innerText\<close> is a field of the element: what the page renders for it is not
  computed from its children.
\<close>

type_synonym nid = nat

record element =
  tagName :: string
  classList :: "string list"
  lang :: "string option"
  dataset_translated :: "string option"
  path :: "nid list"
  isConnected :: bool
  innerText :: string
  display :: string

type_synonym document = "(nid \<times> element) list"

type_synonym selector = "document \<Rightarrow> element \<Rightarrow> bool"

definition has_class :: "string \<Rightarrow> element \<Rightarrow> bool" where
  "has_class c e = (c \<in> set (classList e))"

definition sel_untertitel :: selector where
  \<comment> \<open>\<open>.ardplayer-untertitel\<close>\<close>
  "sel_untertitel doc e = has_class ''ardplayer-untertitel'' e"

definition sel_playpause :: selector where
  \<comment> \<open>\<open>.ardplayer-button-playpause\<close>\<close>
  "sel_playpause doc e = has_class ''ardplayer-button-playpause'' e"

definition sel_untertitel_p :: selector where
  \<comment> \<open>\<open>.ardplayer-untertitel p\<close>: a \<open>p\<close> below an element of that class.\<close>
  "sel_untertitel_p doc e =
     (tagName e = ''p'' \<and>
      list_ex
        (\<lambda>a. case map_of doc a of
               None \<Rightarrow> False
             | Some ae \<Rightarrow> has_class ''ardplayer-untertitel'' ae)
        (path e))"

definition sel_translated :: selector where
  \<comment> \<open>\<open>.translated-subtitle\<close>\<close>
  "sel_translated doc e = has_class ''translated-subtitle'' e"

definition ascii_lowercase :: "string \<Rightarrow> string" where
  "ascii_lowercase s =
     map (\<lambda>c. let n = (of_char c :: nat) in if 65 \<le> n \<and> n \<le> 90 then char_of (n + 32) else c) s"

definition sel_lang_de :: selector where
  \<comment> \<open>\<open>[lang='de-DE']\<close>: in an HTML document a selector compares the value of \<open>lang\<close>
      without regard to the case of the ASCII letters.\<close>
  "sel_lang_de doc e =
     (case lang e of
        None \<Rightarrow> False
      | Some v \<Rightarrow> ascii_lowercase v = ascii_lowercase ''de-DE'')"

definition querySelector :: "document \<Rightarrow> selector \<Rightarrow> (nid \<times> element) option" where
  \<comment> \<open>\<open>document.querySelector\<close>: the first match in tree order, among the elements in
      the document.\<close>
  "querySelector doc sel = List.find (\<lambda>(i, e). isConnected e \<and> sel doc e) doc"

definition querySelectorAll :: "document \<Rightarrow> selector \<Rightarrow> nid list" where
  \<comment> \<open>\<open>document.querySelectorAll\<close>: a static list of node references.\<close>
  "querySelectorAll doc sel = map fst (filter (\<lambda>(i, e). isConnected e \<and> sel doc e) doc)"

definition element_querySelector :: "document \<Rightarrow> nid \<Rightarrow> selector \<Rightarrow> nid option" where
  \<comment> \<open>\<open>parent.querySelector\<close>: the first match among the descendants of \<open>parent\<close>.\<close>
  "element_querySelector doc parent sel =
     map_option fst (List.find (\<lambda>(i, e). parent \<in> set (path e) \<and> sel doc e) doc)"

definition closest :: "document \<Rightarrow> nid \<Rightarrow> element \<Rightarrow> selector \<Rightarrow> nid option" where
  \<comment> \<open>\<open>node.closest\<close>: the node itself, or its nearest matching ancestor.\<close>
  "closest doc i e sel =
     (if sel doc e then Some i
      else List.find (\<lambda>a. case map_of doc a of None \<Rightarrow> False | Some ae \<Rightarrow> sel doc ae) (path e))"

definition parentNode :: "element \<Rightarrow> nid option" where
  "parentNode e = (case path e of [] \<Rightarrow> None | a # _ \<Rightarrow> Some a)"

text \<open>Every write of the script to the page is also kept in a log, in the order made.\<close>

datatype dom_write =
    CreateElement nid string
  | SetClassName nid string
  | InsertBefore nid nid nid
  | SetInnerText nid string
  | SetDisplay nid string
  | SetDataset nid string string

definition update_element :: "nid \<Rightarrow> (element \<Rightarrow> element) \<Rightarrow> document \<Rightarrow> document" where
  "update_element n f doc = map (\<lambda>(i, e). if i = n then (i, f e) else (i, e)) doc"

definition fresh_id :: "document \<Rightarrow> nid" where
  "fresh_id doc = Suc (fold max (map fst doc) 0)"

definition new_element :: "string \<Rightarrow> element" where
  \<comment> \<open>What \<open>document.createElement\<close> returns: an element outside the document.\<close>
  "new_element tag =
     \<lparr>tagName = tag, classList = [], lang = None, dataset_translated = None, path = [],
      isConnected = False, innerText = [], display = []\<rparr>"

fun insert_before :: "nid \<times> element \<Rightarrow> nid \<Rightarrow> document \<Rightarrow> document" where
  \<comment> \<open>The new element becomes the sibling before \<open>ref\<close>: the same ancestors, and in the
      document exactly if \<open>ref\<close> is.\<close>
  "insert_before new ref [] = []"
| "insert_before new ref ((i, e) # rest) =
     (if i = ref
      then (fst new, (snd new)\<lparr>path := path e, isConnected := isConnected e\<rparr>) # (i, e) # rest
      else (i, e) # insert_before new ref rest)"

definition detach_children :: "nid \<Rightarrow> document \<Rightarrow> document" where
  \<comment> \<open>Setting \<open>innerText\<close> replaces the children by one text node: the element's former
      descendants leave the document, and their ancestor chains end below it.\<close>
  "detach_children n doc =
     map (\<lambda>(i, e). if n \<in> set (path e)
                    then (i, e\<lparr>path := takeWhile (\<lambda>a. a \<noteq> n) (path e), isConnected := False\<rparr>)
                    else (i, e)) doc"

section \<open>The state of the content script\<close>

text \<open>
  The three globals of the script (\<open>translationCache\<close>, \<open>observers\<close>, \<open>currentUrl\<close>),
  the page and the location it runs on, and what the runtime holds for it: the mutation
  observers it created, the pending calls of \<open>waitForElement\<close>, the continuations of
  \<open>await\<close> that are ready to run, the timers, the event listeners, and the translation
  requests that have no answer yet. \<open>requests\<close> logs every call of \<open>fetchTranslation\<close>,
  \<open>writes\<close> every write to the page, \<open>console\<close> every message.

  The cache maps a caption text to \<open>null\<close> (the placeholder of line 99, here
  \<open>Pending\<close>) or to the translated string (\<open>Ready\<close>).
\<close>

datatype entry = Pending | Ready string

datatype cont = AwaitContainer | AwaitButton

datatype promise = Unsettled | Resolved nid | Rejected error

record waiter =
  w_selector :: selector
  w_timeout :: nat
  w_promise :: promise
  w_observing :: bool
  w_timer :: bool

datatype callback = SubtitleCallback | PlayPauseCallback | UrlCallback

datatype target = Document | Element nid

datatype options = ChildListSubtree | ClassAttribute

record observer =
  ob_callback :: callback
  ob_observing :: "(target \<times> options) option"

datatype timer_callback = Retry | Initialize

record state =
  translationCache :: "string \<rightharpoonup> entry"
  observers :: "nat list"
  currentUrl :: string
  location_href :: string
  document :: document
  writes :: "dom_write list"
  mutation_observers :: "observer list"
  waiters :: "(waiter \<times> cont) list"
  microtasks :: "(cont \<times> (error + nid)) list"
  timers :: "(nat \<times> timer_callback) list"
  popstate_listener :: bool
  loaded_listener :: bool
  requests :: "string list"
  in_flight :: "string list"
  console :: "string list"

definition empty_state :: "document \<Rightarrow> string \<Rightarrow> state" where
  \<comment> \<open>Lines 2-4, on a page \<open>doc\<close> at the address \<open>url\<close>.\<close>
  "empty_state doc url =
    \<lparr>translationCache = Map.empty, observers = [], currentUrl = url, location_href = url,
     document = doc, writes = [], mutation_observers = [], waiters = [], microtasks = [],
     timers = [], popstate_listener = False, loaded_listener = False, requests = [],
     in_flight = [], console = []\<rparr>"

subsection \<open>Writes to the page\<close>

definition createElement :: "state \<Rightarrow> string \<Rightarrow> state \<times> nid" where
  "createElement st tag =
     (let n = fresh_id (document st) in
      (st\<lparr>document := document st @ [(n, new_element tag)],
          writes := writes st @ [CreateElement n tag]\<rparr>, n))"

definition set_className :: "state \<Rightarrow> nid \<Rightarrow> string \<Rightarrow> state" where
  "set_className st n c =
     st\<lparr>document := update_element n (\<lambda>e. e\<lparr>classList := [c]\<rparr>) (document st),
        writes := writes st @ [SetClassName n c]\<rparr>"

definition insertBefore :: "state \<Rightarrow> nid \<Rightarrow> nid \<Rightarrow> nid \<Rightarrow> state" where
  \<comment> \<open>The source inserts before a child of \<open>parent\<close> only; without the reference node
      nothing is inserted.\<close>
  "insertBefore st parent new ref =
     (case (map_of (document st) new, map_of (document st) ref) of
        (Some e, Some r) \<Rightarrow>
          st\<lparr>document := insert_before (new, e) ref (filter (\<lambda>(i, _). i \<noteq> new) (document st)),
             writes := writes st @ [InsertBefore parent new ref]\<rparr>
      | _ \<Rightarrow> st)"

definition set_innerText :: "state \<Rightarrow> nid \<Rightarrow> string \<Rightarrow> state" where
  "set_innerText st n s =
     st\<lparr>document := update_element n (\<lambda>e. e\<lparr>innerText := s\<rparr>) (detach_children n (document st)),
        writes := writes st @ [SetInnerText n s]\<rparr>"

definition set_display :: "state \<Rightarrow> nid \<Rightarrow> string \<Rightarrow> state" where
  "set_display st n s =
     st\<lparr>document := update_element n (\<lambda>e. e\<lparr>display := s\<rparr>) (document st),
        writes := writes st @ [SetDisplay n s]\<rparr>"

definition set_dataset_translated :: "state \<Rightarrow> nid \<Rightarrow> string \<Rightarrow> state" where
  "set_dataset_translated st n s =
     st\<lparr>document := update_element n (\<lambda>e. e\<lparr>dataset_translated := Some s\<rparr>) (document st),
        writes := writes st @ [SetDataset n ''translated'' s]\<rparr>"

subsection \<open>The render synchronizer\<close>

text \<open>
  \<open>showStoredSubtitle_each\<close> is the body of the \<open>forEach\<close> of lines 126-142, for one
  node of the static list. \<open>!translatedText\<close> holds for an absent entry, for \<open>null\<close> and
  for the empty string. None of the operations in the two \<open>try\<close> blocks (lines 110 and
  122) throws on a document of this model, so their \<open>catch\<close> blocks have no branch.
\<close>

definition showStoredSubtitle_each :: "state \<Rightarrow> nid \<Rightarrow> state" where
  "showStoredSubtitle_each st originalP =
     (case map_of (document st) originalP of
        None \<Rightarrow> st
      | Some p \<Rightarrow>
          (case parentNode p of
             None \<Rightarrow> st
           | Some parent \<Rightarrow>
               (case translationCache st (caption_text (innerText p)) of
                  None \<Rightarrow> st
                | Some Pending \<Rightarrow> st
                | Some (Ready translatedText) \<Rightarrow>
                    if translatedText = [] then st
                    else
                      (let (st1, translatedP) =
                         (case element_querySelector (document st) parent sel_translated of
                            Some t \<Rightarrow> (st, t)
                          | None \<Rightarrow>
                              (let (st2, t) = createElement st ''p'';
                                   st3 = set_className st2 t ''translated-subtitle''
                               in (insertBefore st3 parent t originalP, t)))
                       in set_display (set_innerText st1 translatedP translatedText)
                            translatedP ''block''))))"

definition showStoredSubtitle :: "state \<Rightarrow> state" where
  "showStoredSubtitle st =
     (let subtitleElements = querySelectorAll (document st) sel_untertitel_p in
      if subtitleElements = [] then st
      else foldl showStoredSubtitle_each st subtitleElements)"

definition isPaused :: "document \<Rightarrow> bool" where
  \<comment> \<open>Lines 111-112: the control exists and its class list holds \<open>ardplayer-icon-play\<close>.\<close>
  "isPaused doc =
     (case querySelector doc sel_playpause of
        None \<Rightarrow> False
      | Some (i, playPauseButton) \<Rightarrow> ''ardplayer-icon-play'' \<in> set (classList playPauseButton))"

definition checkAndShowSubtitles :: "state \<Rightarrow> state" where
  "checkAndShowSubtitles st = (if isPaused (document st) then showStoredSubtitle st else st)"

subsection \<open>The translation cache\<close>

text \<open>
  \<open>storeSubtitle\<close> reads the \<open>innerText\<close> of its node once, so it takes the element as
  it is at the call. The request it sends stays in \<open>in_flight\<close> until the service
  answers; \<open>storeSubtitle_then\<close> is the handler of lines 100-105, run with the string
  \<open>fetchTranslation\<close> resolved to. Before it runs, the \<open>catch\<close> block of
  \<open>fetchTranslation\<close> has logged the error, when there was one.
\<close>

definition storeSubtitle :: "state \<Rightarrow> element \<Rightarrow> state" where
  "storeSubtitle st originalP =
     (let text = caption_text (innerText originalP) in
      if text = [] then st
      else if translationCache st text \<noteq> None then st
      else st\<lparr>translationCache := (translationCache st)(text \<mapsto> Pending),
              requests := requests st @ [text],
              in_flight := in_flight st @ [text]\<rparr>)"

definition storeSubtitle_then :: "state \<Rightarrow> string \<Rightarrow> string \<Rightarrow> state" where
  "storeSubtitle_then st text translatedText =
     (if translatedText \<noteq> []
      then checkAndShowSubtitles
             (st\<lparr>translationCache := (translationCache st)(text \<mapsto> Ready translatedText)\<rparr>)
      else st)"

definition fetchTranslation_catch :: "state \<Rightarrow> response \<Rightarrow> state" where
  \<comment> \<open>Line 164, for what the service answered.\<close>
  "fetchTranslation_catch st r =
     (case fetchTranslation_try r of
        Inl e \<Rightarrow> st\<lparr>console := console st @ [''Translation error:'']\<rparr>
      | Inr translatedText \<Rightarrow> st)"

section \<open>The element waiter\<close>

text \<open>
  One call of \<open>waitForElement\<close>, lines 7-33: its promise, whether its observer is
  connected, and whether its timer is still to fire. A call that finds the element at
  once creates neither. Settling a settled promise changes nothing.
\<close>

definition resolve :: "promise \<Rightarrow> nid \<Rightarrow> promise" where
  "resolve p element = (case p of Unsettled \<Rightarrow> Resolved element | _ \<Rightarrow> p)"

definition reject :: "promise \<Rightarrow> error \<Rightarrow> promise" where
  "reject p e = (case p of Unsettled \<Rightarrow> Rejected e | _ \<Rightarrow> p)"

definition waitForElement :: "document \<Rightarrow> selector \<Rightarrow> nat \<Rightarrow> waiter" where
  "waitForElement doc selector timeout =
     (case querySelector doc selector of
        Some (element, _) \<Rightarrow>
          \<lparr>w_selector = selector, w_timeout = timeout, w_promise = resolve Unsettled element,
           w_observing = False, w_timer = False\<rparr>
      | None \<Rightarrow>
          \<lparr>w_selector = selector, w_timeout = timeout, w_promise = Unsettled,
           w_observing = True, w_timer = True\<rparr>)"

definition waiter_observer_callback :: "document \<Rightarrow> waiter \<Rightarrow> waiter" where
  \<comment> \<open>Lines 15-21, on a batch of mutations delivered when the page is \<open>doc\<close>.\<close>
  "waiter_observer_callback doc w =
     (case querySelector doc (w_selector w) of
        Some (element, _) \<Rightarrow> w\<lparr>w_observing := False, w_promise := resolve (w_promise w) element\<rparr>
      | None \<Rightarrow> w)"

definition waiter_timer_callback :: "waiter \<Rightarrow> waiter" where
  \<comment> \<open>Lines 28-31.\<close>
  "waiter_timer_callback w =
     w\<lparr>w_observing := False, w_promise := reject (w_promise w) TimeoutError, w_timer := False\<rparr>"

datatype waiter_event = Mutated document | TimerFired

fun waiter_step :: "waiter \<Rightarrow> waiter_event \<Rightarrow> waiter" where
  \<comment> \<open>A disconnected observer gets no callback; a timer fires once.\<close>
  "waiter_step w (Mutated doc) = (if w_observing w then waiter_observer_callback doc w else w)"
| "waiter_step w TimerFired = (if w_timer w then waiter_timer_callback w else w)"

section \<open>The lifecycle controller\<close>

definition disconnect :: "observer list \<Rightarrow> nat \<Rightarrow> observer list" where
  "disconnect obs i = (if i < length obs then obs[i := (obs ! i)\<lparr>ob_observing := None\<rparr>] else obs)"

definition cleanup :: "state \<Rightarrow> state" where
  "cleanup st =
     st\<lparr>mutation_observers := foldl disconnect (mutation_observers st) (observers st),
        observers := []\<rparr>"

definition settled :: "waiter \<Rightarrow> waiter \<Rightarrow> cont \<Rightarrow> (cont \<times> (error + nid)) list" where
  \<comment> \<open>The continuation that becomes ready when a callback settles the promise.\<close>
  "settled w w' k =
     (case w_promise w of
        Unsettled \<Rightarrow>
          (case w_promise w' of
             Unsettled \<Rightarrow> []
           | Resolved element \<Rightarrow> [(k, Inr element)]
           | Rejected e \<Rightarrow> [(k, Inl e)])
      | _ \<Rightarrow> [])"

definition await_waitForElement :: "state \<Rightarrow> selector \<Rightarrow> nat \<Rightarrow> cont \<Rightarrow> state" where
  \<comment> \<open>\<open>await waitForElement(selector, timeout)\<close>: the call, and the continuation \<open>k\<close>
      queued at once when the promise is settled already.\<close>
  "await_waitForElement st selector timeout k =
     (let w = waitForElement (document st) selector timeout in
      st\<lparr>waiters := waiters st @ [(w, k)],
         microtasks := microtasks st @
           (case w_promise w of
              Unsettled \<Rightarrow> []
            | Resolved element \<Rightarrow> [(k, Inr element)]
            | Rejected e \<Rightarrow> [(k, Inl e)])\<rparr>)"

definition observe :: "state \<Rightarrow> callback \<Rightarrow> target \<Rightarrow> options \<Rightarrow> state" where
  \<comment> \<open>\<open>new MutationObserver(cb)\<close>, \<open>observe(target, options)\<close>, \<open>observers.push\<close>.\<close>
  "observe st cb tgt opts =
     st\<lparr>mutation_observers :=
          mutation_observers st @ [\<lparr>ob_callback = cb, ob_observing = Some (tgt, opts)\<rparr>],
        observers := observers st @ [length (mutation_observers st)]\<rparr>"

definition initializeExtension :: "state \<Rightarrow> state" where
  \<comment> \<open>Lines 42-48: what runs up to the first \<open>await\<close>.\<close>
  "initializeExtension st = await_waitForElement (cleanup st) sel_untertitel 10000 AwaitContainer"

fun initializeExtension_resume :: "state \<Rightarrow> cont \<times> (error + nid) \<Rightarrow> state" where
  \<comment> \<open>What runs after an \<open>await\<close>: lines 50-74 after the first, when it resolved, and
      lines 83-89 when it rejected; lines 75-82 after the second.\<close>
  "initializeExtension_resume st (AwaitContainer, Inr subtitleContainer) =
     await_waitForElement
       (observe st SubtitleCallback (Element subtitleContainer) ChildListSubtree)
       sel_playpause 5000 AwaitButton"
| "initializeExtension_resume st (AwaitContainer, Inl e) =
     st\<lparr>console := console st @ [''Failed to initialize Bilingual ARD extension:''],
        timers := timers st @ [(2000, Retry)]\<rparr>"
| "initializeExtension_resume st (AwaitButton, Inr playPauseButton) =
     (observe st PlayPauseCallback (Element playPauseButton) ClassAttribute)
       \<lparr>console := console st @ [''Bilingual ARD extension initialized successfully'']\<rparr>"
| "initializeExtension_resume st (AwaitButton, Inl e) =
     st\<lparr>console := console st @
          [''Play/pause button not found, continuing without it:'',
           ''Bilingual ARD extension initialized successfully'']\<rparr>"

fun weight :: "cont \<times> (error + nid) \<Rightarrow> nat" where
  "weight (AwaitContainer, _) = 2"
| "weight (AwaitButton, _) = 1"

text \<open>
  After each task the runtime runs the ready continuations until none is left. A
  continuation of the first \<open>await\<close> can queue one of the second, which queues none.
\<close>

function run_microtasks :: "state \<Rightarrow> state" where
  "run_microtasks st =
     (case microtasks st of
        [] \<Rightarrow> st
      | job # rest \<Rightarrow> run_microtasks (initializeExtension_resume (st\<lparr>microtasks := rest\<rparr>) job))"
  by pat_completeness auto
termination
proof (relation "measure (\<lambda>st. sum_list (map weight (microtasks st)))")
  fix st :: state and job rest
  assume "microtasks st = job # rest"
  moreover have
    "sum_list (map weight (microtasks (initializeExtension_resume (st\<lparr>microtasks := rest\<rparr>) job)))
       < weight job + sum_list (map weight rest)"
    by (cases "(st\<lparr>microtasks := rest\<rparr>, job)" rule: initializeExtension_resume.cases)
      (auto simp: await_waitForElement_def observe_def waitForElement_def resolve_def
        split: option.splits promise.splits prod.splits)
  ultimately show "(initializeExtension_resume (st\<lparr>microtasks := rest\<rparr>) job, st)
      \<in> measure (\<lambda>st. sum_list (map weight (microtasks st)))"
    by simp
qed simp

definition setupNavigationDetection :: "state \<Rightarrow> state" where
  "setupNavigationDetection st =
     observe (st\<lparr>popstate_listener := True\<rparr>) UrlCallback Document ChildListSubtree"

definition navigation_callback :: "state \<Rightarrow> state" where
  \<comment> \<open>The body the \<open>popstate\<close> listener and the observer of lines 180-185 share.\<close>
  "navigation_callback st =
     (if location_href st \<noteq> currentUrl st
      then st\<lparr>currentUrl := location_href st, timers := timers st @ [(500, Initialize)]\<rparr>
      else st)"

definition content_script :: "bool \<Rightarrow> document \<Rightarrow> string \<Rightarrow> state" where
  \<comment> \<open>The script as the page loads it, lines 1-4 and 191-199; \<open>loading\<close> is
      \<open>document.readyState === 'loading'\<close>.\<close>
  "content_script loading doc url =
     (let st0 = empty_state doc url;
          st1 = (if loading then st0\<lparr>loaded_listener := True\<rparr> else initializeExtension st0)
      in run_microtasks (setupNavigationDetection st1))"

section \<open>The caption watcher, and the events of a session\<close>

datatype node = ElementNode nid | OtherNode

datatype mutation_record = ChildList nid "node list" | Attributes nid string

definition falsy :: "string option \<Rightarrow> bool" where
  "falsy v = (case v of None \<Rightarrow> True | Some s \<Rightarrow> s = [])"

definition subtitle_added_node :: "state \<Rightarrow> node \<Rightarrow> state" where
  \<comment> \<open>Lines 55-63, for one added node.\<close>
  "subtitle_added_node st n =
     (case n of
        OtherNode \<Rightarrow> st
      | ElementNode i \<Rightarrow>
          (case map_of (document st) i of
             None \<Rightarrow> st
           | Some e \<Rightarrow>
               if sel_untertitel_p (document st) e then
                 (case closest (document st) i e sel_lang_de of
                    None \<Rightarrow> st
                  | Some subtitleContainer \<Rightarrow>
                      if falsy (dataset_translated e)
                      then storeSubtitle (set_dataset_translated st i ''true'') e
                      else st)
               else st))"

definition subtitle_callback :: "state \<Rightarrow> mutation_record list \<Rightarrow> state" where
  \<comment> \<open>Lines 51-67.\<close>
  "subtitle_callback st mutations =
     foldl (\<lambda>st mutation.
              case mutation of
                ChildList t addedNodes \<Rightarrow> foldl subtitle_added_node st addedNodes
              | Attributes t a \<Rightarrow> st)
       st mutations"

text \<open>
  Which records an observer is handed: those of a child list changed at or below its
  target, or of the class attribute of its target, as its options say. Where a record's
  target lies is read from the page as it is when the batch is delivered.
\<close>

definition in_subtree :: "document \<Rightarrow> target \<Rightarrow> nid \<Rightarrow> bool" where
  "in_subtree doc tgt t =
     (case map_of doc t of
        None \<Rightarrow> False
      | Some e \<Rightarrow> (case tgt of Document \<Rightarrow> isConnected e | Element c \<Rightarrow> t = c \<or> c \<in> set (path e)))"

definition observed :: "document \<Rightarrow> target \<times> options \<Rightarrow> mutation_record \<Rightarrow> bool" where
  "observed doc obs r =
     (case (snd obs, r) of
        (ChildListSubtree, ChildList t added) \<Rightarrow> in_subtree doc (fst obs) t
      | (ClassAttribute, Attributes t a) \<Rightarrow> fst obs = Element t \<and> a = ''class''
      | _ \<Rightarrow> False)"

definition notify_waiters :: "state \<Rightarrow> mutation_record list \<Rightarrow> state" where
  \<comment> \<open>The observers of the pending \<open>waitForElement\<close> calls watch the child lists of the
      whole document.\<close>
  "notify_waiters st records =
     (if filter (observed (document st) (Document, ChildListSubtree)) records = [] then st
      else
        (let ws = map (\<lambda>(w, k). (waiter_step w (Mutated (document st)), k)) (waiters st) in
         st\<lparr>waiters := ws,
            microtasks := microtasks st @
              concat (map2 (\<lambda>(w, k) (w', k'). settled w w' k) (waiters st) ws)\<rparr>))"

definition notify_observer :: "mutation_record list \<Rightarrow> state \<Rightarrow> nat \<Rightarrow> state" where
  "notify_observer records st i =
     (case ob_observing (mutation_observers st ! i) of
        None \<Rightarrow> st
      | Some obs \<Rightarrow>
          (let mutations = filter (observed (document st) obs) records in
           if mutations = [] then st
           else
             (case ob_callback (mutation_observers st ! i) of
                SubtitleCallback \<Rightarrow> subtitle_callback st mutations
              | PlayPauseCallback \<Rightarrow> checkAndShowSubtitles st
              | UrlCallback \<Rightarrow> navigation_callback st)))"

definition remove_nth :: "nat \<Rightarrow> 'a list \<Rightarrow> 'a list" where
  "remove_nth n xs = take n xs @ drop (Suc n) xs"

text \<open>
  What can happen to a running script: the page changes (the new page, and the mutation
  records of the change), the location changes, the browser goes back or forward, the
  page finishes loading, a timer of the script or of a \<open>waitForElement\<close> call fires, the
  translation service answers a request. Each event is one task, followed by the ready
  continuations. Nothing orders the events, so the runs of the model include every run
  of the script. The records of what the script itself writes to the page reach its
  observers the same way, as a \<open>Mutation\<close> event with the page as the script left it:
  the model does not add this event after a write, so a statement about every list of
  events holds with and without it.
\<close>

datatype event =
    Mutation document "mutation_record list"
  | Navigate string
  | Popstate
  | DOMContentLoaded
  | TimerFires nat
  | WaitTimerFires nat
  | FetchSettles nat response

fun step :: "state \<Rightarrow> event \<Rightarrow> state" where
  "step st (Mutation doc records) =
     (let st1 = notify_waiters (st\<lparr>document := doc\<rparr>) records;
          st2 = foldl (notify_observer records) st1 [0..<length (mutation_observers st1)]
      in run_microtasks st2)"
| "step st (Navigate url) = st\<lparr>location_href := url\<rparr>"
| "step st Popstate = (if popstate_listener st then navigation_callback st else st)"
| "step st DOMContentLoaded =
     (if loaded_listener st then run_microtasks (initializeExtension st) else st)"
| "step st (TimerFires n) =
     (if n < length (timers st) then
        (let st1 = st\<lparr>timers := remove_nth n (timers st)\<rparr> in
         case snd (timers st ! n) of
           Retry \<Rightarrow>
             run_microtasks
               (initializeExtension
                  (st1\<lparr>console := console st1 @ [''Retrying extension initialization...'']\<rparr>))
         | Initialize \<Rightarrow> run_microtasks (initializeExtension st1))
      else st)"
| "step st (WaitTimerFires n) =
     (if n < length (waiters st) then
        (case waiters st ! n of
           (w, k) \<Rightarrow>
             (let w' = waiter_step w TimerFired in
              run_microtasks
                (st\<lparr>waiters := (waiters st)[n := (w', k)],
                    microtasks := microtasks st @ settled w w' k\<rparr>)))
      else st)"
| "step st (FetchSettles n r) =
     (if n < length (in_flight st)
      then storeSubtitle_then
             (fetchTranslation_catch (st\<lparr>in_flight := remove_nth n (in_flight st)\<rparr>) r)
             (in_flight st ! n) (fetchTranslation r)
      else st)"

definition run :: "state \<Rightarrow> event list \<Rightarrow> state" where
  "run st events = foldl step st events"

section \<open>Notions used in the statements\<close>

text \<open>
  \<open>same_pipeline\<close>: a step left the cache and the requests alone. \<open>dedup_inv\<close>: no text
  was requested twice, every requested text has a cache entry, and the requests without
  an answer are for different texts, each \<open>Pending\<close> in the cache. \<open>ready_kept\<close>: every
  text that was \<open>Ready\<close> still is; \<open>ready_same\<close>: with the same translation. \<open>advance\<close>:
  what a step keeps.
\<close>

definition same_pipeline :: "state \<Rightarrow> state \<Rightarrow> bool" where
  "same_pipeline st st' =
     (translationCache st' = translationCache st \<and> requests st' = requests st
      \<and> in_flight st' = in_flight st)"

definition dedup_inv :: "state \<Rightarrow> bool" where
  "dedup_inv st =
     (distinct (requests st) \<and> set (requests st) \<subseteq> dom (translationCache st)
      \<and> distinct (in_flight st)
      \<and> list_all (\<lambda>t. translationCache st t = Some Pending) (in_flight st))"

definition ready_kept :: "state \<Rightarrow> state \<Rightarrow> bool" where
  "ready_kept st st' =
     (\<forall>T x. translationCache st T = Some (Ready x) \<longrightarrow> (\<exists>y. translationCache st' T = Some (Ready y)))"

definition ready_same :: "state \<Rightarrow> state \<Rightarrow> bool" where
  "ready_same st st' =
     (\<forall>T x. translationCache st T = Some (Ready x) \<longrightarrow> translationCache st' T = Some (Ready x))"

definition advance :: "state \<Rightarrow> state \<Rightarrow> bool" where
  "advance st st' =
     ((dedup_inv st \<longrightarrow> dedup_inv st' \<and> ready_same st st') \<and> ready_kept st st')"







text \<open>
  What the contract of the element waiter promises for a call that did not find the
  element at once, read off the events that follow it: the first batch of mutations at
  which the element is there resolves the promise, unless the timer fired before.
\<close>

fun first_outcome :: "selector \<Rightarrow> waiter_event list \<Rightarrow> promise" where
  "first_outcome selector [] = Unsettled"
| "first_outcome selector (Mutated doc # es) =
     (case querySelector doc selector of
        Some (element, _) \<Rightarrow> Resolved element
      | None \<Rightarrow> first_outcome selector es)"
| "first_outcome selector (TimerFired # es) = Rejected TimeoutError"

text \<open>
  \<open>container_timeouts k\<close>: \<open>k\<close> rounds in which the wait for the caption container
  times out and the retry timer fires. \<open>awaiting_container k\<close>: no timer of the script
  is pending, nothing is ready to run, and call number \<open>k\<close> of \<open>waitForElement\<close> waits
  for the caption container, which the page does not have.
\<close>

fun container_timeouts :: "nat \<Rightarrow> event list" where
  "container_timeouts 0 = []"
| "container_timeouts (Suc k) = container_timeouts k @ [WaitTimerFires k, TimerFires 0]"

definition awaiting_container :: "nat \<Rightarrow> state \<Rightarrow> bool" where
  "awaiting_container k st =
     (timers st = [] \<and> microtasks st = [] \<and> length (waiters st) = Suc k
      \<and> waiters st ! k =
          (\<lparr>w_selector = sel_untertitel, w_timeout = 10000, w_promise = Unsettled,
            w_observing = True, w_timer = True\<rparr>, AwaitContainer)
      \<and> querySelector (document st) sel_untertitel = None)"

subsection \<open>Pages and states of the examples\<close>

definition p_element :: "nid \<Rightarrow> string \<Rightarrow> element" where
  "p_element parent txt =
     \<lparr>tagName = ''p'', classList = [], lang = None, dataset_translated = None, path = [parent],
      isConnected = True, innerText = txt, display = []\<rparr>"

definition div_element :: "string list \<Rightarrow> element" where
  "div_element cls =
     \<lparr>tagName = ''div'', classList = cls, lang = Some ''de-DE'', dataset_translated = None,
      path = [], isConnected = True, innerText = [], display = []\<rparr>"

definition player_page :: document where
  "player_page =
     [(1, div_element [''ardplayer-button-playpause'', ''ardplayer-icon-pause'']),
      (2, div_element [''ardplayer-untertitel''])]"

definition captions_page :: document where
  "captions_page = [(2, div_element [''ardplayer-untertitel''])]"

definition plain_page :: document where
  \<comment> \<open>A page whose one element has no class yet.\<close>
  "plain_page = [(9, div_element [])]"

definition classed_page :: document where
  \<comment> \<open>The same page after the class of the element was set.\<close>
  "classed_page = [(9, div_element [''ardplayer-untertitel''])]"

definition captured_page :: document where
  "captured_page = [(2, div_element [''ardplayer-untertitel'']), (3, p_element 2 ''Guten Tag'')]"

definition caption_page :: document where
  "caption_page =
     [(1, div_element [''ardplayer-button-playpause'', ''ardplayer-icon-pause'']),
      (2, div_element [''ardplayer-untertitel'']),
      (3, p_element 2 ''Guten Tag'')]"

definition playing :: state where
  \<comment> \<open>Playback runs; the caption shown has its translation in the cache.\<close>
  "playing =
     (empty_state caption_page [])
     \<lparr>translationCache := [''Guten Tag'' \<mapsto> Ready ''Good day'']\<rparr>"

definition pending_caption :: state where
  \<comment> \<open>Playback is paused; the caption shown waits for its translation, below the
      translated element of an earlier caption.\<close>
  "pending_caption =
     (empty_state
        [(1, div_element [''ardplayer-button-playpause'', ''ardplayer-icon-play'']),
         (2, div_element [''ardplayer-untertitel'']),
         (3, (p_element 2 ''Good day'')\<lparr>classList := [''translated-subtitle''], display := ''block''\<rparr>),
         (4, p_element 2 ''Wie geht es'')] [])
     \<lparr>translationCache := [''Guten Tag'' \<mapsto> Ready ''Good day'', ''Wie geht es'' \<mapsto> Pending]\<rparr>"



declare run_microtasks.simps [simp del]

section \<open>Sentence casing\<close>

lemma toLowerCase_toUpperCase_char: "toLowerCase_char (toUpperCase_char c) = toLowerCase_char c"
  by (auto simp: toLowerCase_char_def toUpperCase_char_def Let_def)

lemma toLowerCase_char_idem: "toLowerCase_char (toLowerCase_char c) = toLowerCase_char c"
  by (auto simp: toLowerCase_char_def Let_def)

lemma toLowerCase_toUpperCase: "toLowerCase (toUpperCase s) = toLowerCase s"
  by (simp add: toLowerCase_def toUpperCase_def toLowerCase_toUpperCase_char)

lemma toLowerCase_idem: "toLowerCase (toLowerCase s) = toLowerCase s"
  by (simp add: toLowerCase_def toLowerCase_char_idem)

lemma toLowerCase_append: "toLowerCase (xs @ ys) = toLowerCase xs @ toLowerCase ys"
  by (simp add: toLowerCase_def)

text \<open>Capitalising changes letters to their capitals only, so lower-casing undoes it.\<close>

lemma toLowerCase_capitalize_from: "toLowerCase (capitalize_from u) = toLowerCase u"
proof (induction u rule: capitalize_from.induct)
  case 1
  show ?case by simp
next
  case (2 c cs)
  show ?case
  proof (cases "c = CHR ''.''")
    case False
    with 2 show ?thesis by (simp add: toLowerCase_def)
  next
    case dot: True
    show ?thesis
    proof (cases "dropWhile is_space cs")
      case Nil
      have "capitalize_from (c # cs) = c # capitalize_from cs"
        by (simp add: dot Nil)
      moreover have "toLowerCase (capitalize_from cs) = toLowerCase cs"
        using 2(1) dot Nil by simp
      ultimately show ?thesis by (simp add: toLowerCase_def)
    next
      case (Cons w rest)
      show ?thesis
      proof (cases "is_word w")
        case False
        have "capitalize_from (c # cs) = c # capitalize_from cs"
          by (simp add: dot Cons False)
        moreover have "toLowerCase (capitalize_from cs) = toLowerCase cs"
          using 2(3) dot Cons False by simp
        ultimately show ?thesis by (simp add: toLowerCase_def)
      next
        case True
        have parts: "cs = takeWhile is_space cs @ w # rest"
          using Cons by (metis takeWhile_dropWhile_id)
        have ih: "toLowerCase (capitalize_from rest) = toLowerCase rest"
          using 2(2) dot Cons True by simp
        have "capitalize_from (c # cs) =
              toUpperCase (c # takeWhile is_space cs @ [w]) @ capitalize_from rest"
          by (simp add: dot Cons True)
        then have "toLowerCase (capitalize_from (c # cs)) =
              toLowerCase (c # takeWhile is_space cs @ [w]) @ toLowerCase rest"
          using ih by (simp only: toLowerCase_append toLowerCase_toUpperCase)
        also have "\<dots> = toLowerCase (c # takeWhile is_space cs @ w # rest)"
          by (simp add: toLowerCase_def)
        finally show ?thesis using parts by simp
      qed
    qed
  qed
qed

lemma toLowerCase_sentence_case: "toLowerCase (sentence_case s) = toLowerCase s"
proof (cases "toLowerCase s")
  case Nil
  then show ?thesis by (simp add: sentence_case_def toLowerCase_def)
next
  case (Cons c cs)
  have "toLowerCase (sentence_case s) = toLowerCase (c # cs)"
    using Cons toLowerCase_capitalize_from [of cs] toLowerCase_capitalize_from [of "c # cs"]
    by (simp add: sentence_case_def toLowerCase_append toLowerCase_toUpperCase)
      (simp add: toLowerCase_def toUpperCase_def toLowerCase_toUpperCase_char)
  then show ?thesis using Cons toLowerCase_idem [of s] by simp
qed

text \<open>
  C8. Sentence casing is idempotent: casing a cased string gives the same string. It
  holds for every string, so in particular for an already correctly cased single
  sentence.
\<close>

theorem sentence_case_idempotent: "sentence_case (sentence_case s) = sentence_case s"
  by (simp add: sentence_case_def [of "sentence_case s"] toLowerCase_sentence_case)
    (simp add: sentence_case_def)

section \<open>Joining the fragments\<close>

lemma array_map_fragments: "array_map index0 (map (\<lambda>f. JArr [JStr f]) fs) = Inr (map JStr fs)"
  by (induction fs) auto

lemma array_join_strings: "array_join sep (map JStr fs) = join sep fs"
  by (simp add: array_join_def comp_def)

text \<open>
  C3, as the claim states it: the fragments \<open>Hallo\<close> and \<open> Welt\<close> give \<open>Hallo welt\<close>. The
  code gives another string.
\<close>

theorem hallo_welt_counterexample:
  "fetchTranslation (fragments_response [''Hallo'', '' Welt'']) \<noteq> ''Hallo welt''"
  by (simp add: fetchTranslation_def fragments_response_def array_join_def sentence_case_def
      toLowerCase_def toUpperCase_def toLowerCase_char_def toUpperCase_char_def is_word_def
      is_space_def char_of_eq_iff)

text \<open>
  C3, amended. The client puts one space between each two fragments, whatever space the
  fragments hold themselves, and sentence-cases the result. For the fragments \<open>Hallo\<close>
  and \<open> Welt\<close> that is \<open>Hallo  welt\<close> with two spaces: the separator and the second
  fragment's own leading space. The fragments \<open>Hallo\<close> and \<open>Welt\<close> give \<open>Hallo welt\<close>.
\<close>

theorem fetchTranslation_fragments:
  "fetchTranslation (fragments_response fs) = sentence_case (join '' '' fs)
   \<and> fetchTranslation (fragments_response [''Hallo'', '' Welt'']) = ''Hallo  welt''
   \<and> fetchTranslation (fragments_response [''Hallo'', ''Welt'']) = ''Hallo welt''"
proof -
  have general: "fetchTranslation (fragments_response gs) = sentence_case (join '' '' gs)" for gs
    by (simp add: fetchTranslation_def fragments_response_def array_map_fragments
        array_join_strings)
  have "sentence_case ''Hallo  Welt'' = ''Hallo  welt''"
    by (simp add: sentence_case_def toLowerCase_def toUpperCase_def toLowerCase_char_def
        toUpperCase_char_def is_word_def is_space_def char_of_eq_iff)
  moreover have "sentence_case ''Hallo Welt'' = ''Hallo welt''"
    by (simp add: sentence_case_def toLowerCase_def toUpperCase_def toLowerCase_char_def
        toUpperCase_char_def is_word_def is_space_def char_of_eq_iff)
  ultimately show ?thesis
    by (simp add: general)
qed

section \<open>Facts about the example pages\<close>

lemmas dom_defs = showStoredSubtitle_def showStoredSubtitle_each_def querySelectorAll_def
  querySelector_def element_querySelector_def sel_untertitel_p_def sel_translated_def has_class_def
  parentNode_def createElement_def set_className_def insertBefore_def set_innerText_def
  set_display_def update_element_def detach_children_def fresh_id_def new_element_def
  caption_text_def trim_def is_space_def empty_state_def p_element_def div_element_def
  caption_page_def

lemmas callback_defs = notify_waiters_def notify_observer_def observed_def in_subtree_def
  settled_def navigation_callback_def subtitle_callback_def div_element_def Let_def

lemma p_element_fields:
  "innerText (p_element parent txt) = txt" "dataset_translated (p_element parent txt) = None"
  by (simp_all add: p_element_def)

lemma captions_page_container:
  "querySelector captions_page sel_untertitel = Some (2, div_element [''ardplayer-untertitel''])"
  by (simp add: captions_page_def querySelector_def sel_untertitel_def has_class_def div_element_def)

lemma captured_page_facts:
  "map_of captured_page 2 = Some (div_element [''ardplayer-untertitel''])"
  "map_of captured_page 3 = Some (p_element 2 ''Guten Tag'')"
  "sel_untertitel_p captured_page (p_element 2 ''Guten Tag'')"
  "closest captured_page 3 (p_element 2 ''Guten Tag'') sel_lang_de = Some 2"
  "querySelector captured_page sel_playpause = None"
  by (simp_all add: captured_page_def sel_untertitel_p_def closest_def sel_lang_de_def
      querySelector_def sel_playpause_def has_class_def div_element_def p_element_def)

lemma player_page_container:
  "querySelector player_page sel_untertitel = Some (2, div_element [''ardplayer-untertitel''])"
  by (simp add: player_page_def querySelector_def sel_untertitel_def has_class_def div_element_def)

lemma player_page_button:
  "querySelector player_page sel_playpause =
     Some (1, div_element [''ardplayer-button-playpause'', ''ardplayer-icon-pause''])"
  by (simp add: player_page_def querySelector_def sel_playpause_def has_class_def div_element_def)

lemma player_page_2: "map_of player_page 2 = Some (div_element [''ardplayer-untertitel''])"
  by (simp add: player_page_def)

lemma empty_page_container: "querySelector [] sel_untertitel = None"
  by (simp add: querySelector_def)

lemma captions_page_button: "querySelector captions_page sel_playpause = None"
  by (simp add: captions_page_def querySelector_def sel_playpause_def has_class_def div_element_def)

lemma run_microtasks_Nil: "microtasks st = [] \<Longrightarrow> run_microtasks st = st"
  by (simp add: run_microtasks.simps [of st])

lemma run_microtasks_Cons:
  "microtasks st = job # rest \<Longrightarrow>
   run_microtasks st = run_microtasks (initializeExtension_resume (st\<lparr>microtasks := rest\<rparr>) job)"
  by (simp add: run_microtasks.simps [of st])

lemma run_append: "run st (xs @ ys) = run (run st xs) ys"
  by (simp add: run_def)

lemma run_two: "run st [a, b] = step (step st a) b"
  by (simp add: run_def)

lemma loaded:
  "content_script False player_page ''/a'' =
     (empty_state player_page ''/a'')
       \<lparr>observers := [0, 1, 2],
        mutation_observers :=
          [\<lparr>ob_callback = UrlCallback, ob_observing = Some (Document, ChildListSubtree)\<rparr>,
           \<lparr>ob_callback = SubtitleCallback, ob_observing = Some (Element 2, ChildListSubtree)\<rparr>,
           \<lparr>ob_callback = PlayPauseCallback, ob_observing = Some (Element 1, ClassAttribute)\<rparr>],
        waiters :=
          [(\<lparr>w_selector = sel_untertitel, w_timeout = 10000, w_promise = Resolved 2,
             w_observing = False, w_timer = False\<rparr>, AwaitContainer),
           (\<lparr>w_selector = sel_playpause, w_timeout = 5000, w_promise = Resolved 1,
             w_observing = False, w_timer = False\<rparr>, AwaitButton)],
        popstate_listener := True,
        console := [''Bilingual ARD extension initialized successfully'']\<rparr>"
  by (simp add: content_script_def initializeExtension_def await_waitForElement_def
      waitForElement_def cleanup_def observe_def setupNavigationDetection_def resolve_def
      player_page_container player_page_button empty_state_def run_microtasks.simps)

lemma caption_page_facts:
  "map_of caption_page 2 = Some (div_element [''ardplayer-untertitel''])"
  "map_of caption_page 3 = Some (p_element 2 ''Guten Tag'')"
  "sel_untertitel_p caption_page (p_element 2 ''Guten Tag'')"
  "closest caption_page 3 (p_element 2 ''Guten Tag'') sel_lang_de = Some 2"
  by (simp_all add: caption_page_def sel_untertitel_p_def closest_def sel_lang_de_def
      has_class_def div_element_def p_element_def)

text \<open>
  A caption appears on the loaded page: it is marked, its text gets the placeholder,
  and one request is sent. The answer makes the entry \<open>Ready\<close>; playback runs, so nothing
  is rendered.
\<close>

lemma caption_requested:
  "run (content_script False player_page ''/a'') [Mutation caption_page [ChildList 2 [ElementNode 3]]] =
     (content_script False player_page ''/a'')
       \<lparr>document := update_element 3 (\<lambda>e. e\<lparr>dataset_translated := Some ''true''\<rparr>) caption_page,
        writes := [SetDataset 3 ''translated'' ''true''],
        translationCache := [''Guten Tag'' \<mapsto> Pending],
        requests := [''Guten Tag''], in_flight := [''Guten Tag'']\<rparr>"
proof -
  define S0 where "S0 = content_script False player_page ''/a''"
  have S0: "mutation_observers S0 =
       [\<lparr>ob_callback = UrlCallback, ob_observing = Some (Document, ChildListSubtree)\<rparr>,
        \<lparr>ob_callback = SubtitleCallback, ob_observing = Some (Element 2, ChildListSubtree)\<rparr>,
        \<lparr>ob_callback = PlayPauseCallback, ob_observing = Some (Element 1, ClassAttribute)\<rparr>]"
    "waiters S0 =
       [(\<lparr>w_selector = sel_untertitel, w_timeout = 10000, w_promise = Resolved 2,
          w_observing = False, w_timer = False\<rparr>, AwaitContainer),
        (\<lparr>w_selector = sel_playpause, w_timeout = 5000, w_promise = Resolved 1,
          w_observing = False, w_timer = False\<rparr>, AwaitButton)]"
    "microtasks S0 = []" "currentUrl S0 = ''/a''" "location_href S0 = ''/a''"
    "translationCache S0 = Map.empty" "in_flight S0 = []" "requests S0 = []" "writes S0 = []"
    unfolding S0_def loaded by (simp_all add: empty_state_def)
  have "step S0 (Mutation caption_page [ChildList 2 [ElementNode 3]]) =
        S0\<lparr>document := update_element 3 (\<lambda>e. e\<lparr>dataset_translated := Some ''true''\<rparr>) caption_page,
           writes := [SetDataset 3 ''translated'' ''true''],
           translationCache := [''Guten Tag'' \<mapsto> Pending],
           requests := [''Guten Tag''], in_flight := [''Guten Tag'']\<rparr>"
    by (simp add: S0 callback_defs caption_page_facts subtitle_added_node_def storeSubtitle_def
        set_dataset_translated_def falsy_def run_microtasks_Nil caption_text_def trim_def
        is_space_def p_element_fields)
  then show ?thesis
    unfolding S0_def by (simp add: run_def)
qed

lemma caption_translated:
  "translationCache (run (content_script False player_page ''/a'')
      [Mutation caption_page [ChildList 2 [ElementNode 3]],
       FetchSettles 0 (fragments_response [''good day''])]) = [''Guten Tag'' \<mapsto> Ready ''Good day'']"
proof -
  define S1 where
    "S1 = run (content_script False player_page ''/a'') [Mutation caption_page [ChildList 2 [ElementNode 3]]]"
  have S1: "in_flight S1 = [''Guten Tag'']" "translationCache S1 = [''Guten Tag'' \<mapsto> Pending]"
    "document S1 = update_element 3 (\<lambda>e. e\<lparr>dataset_translated := Some ''true''\<rparr>) caption_page"
    unfolding S1_def caption_requested by simp_all
  have parsed: "fetchTranslation_try (fragments_response [''good day'']) = Inr ''Good day''"
    by (simp add: fragments_response_def array_join_def sentence_case_def
        toLowerCase_def toUpperCase_def toLowerCase_char_def toUpperCase_char_def is_word_def
        is_space_def char_of_eq_iff)
  then have answer: "fetchTranslation (fragments_response [''good day'']) = ''Good day''"
    by (simp add: fetchTranslation_def)
  have not_paused: "\<not> isPaused (update_element 3 (\<lambda>e. e\<lparr>dataset_translated := Some ''true''\<rparr>) caption_page)"
    by (simp add: isPaused_def querySelector_def sel_playpause_def has_class_def update_element_def
        caption_page_def div_element_def p_element_def)
  have "translationCache (step S1 (FetchSettles 0 (fragments_response [''good day'']))) =
        [''Guten Tag'' \<mapsto> Ready ''Good day'']"
    by (simp add: S1 answer parsed fetchTranslation_catch_def not_paused storeSubtitle_then_def
        checkAndShowSubtitles_def remove_nth_def)
  then show ?thesis
    unfolding S1_def by (simp add: run_def)
qed

section \<open>Steps that leave the cache alone\<close>

lemma same_pipeline_refl: "same_pipeline st st"
  by (simp add: same_pipeline_def)

lemma same_pipeline_trans: "same_pipeline a b \<Longrightarrow> same_pipeline b c \<Longrightarrow> same_pipeline a c"
  by (simp add: same_pipeline_def)

lemma same_pipeline_foldl:
  "(\<And>s x. same_pipeline s (f s x)) \<Longrightarrow> same_pipeline st (foldl f st xs)"
proof (induction xs arbitrary: st)
  case Nil
  show ?case by (simp add: same_pipeline_refl)
next
  case (Cons x xs)
  have "same_pipeline st (f st x)" by (rule Cons.prems)
  moreover have "same_pipeline (f st x) (foldl f (f st x) xs)"
    by (rule Cons.IH) (rule Cons.prems)
  ultimately show ?case
    by (simp add: same_pipeline_trans)
qed

lemma same_pipeline_createElement: "same_pipeline st (fst (createElement st tag))"
  by (simp add: same_pipeline_def createElement_def Let_def)

lemma same_pipeline_set_className: "same_pipeline st (set_className st n c)"
  by (simp add: same_pipeline_def set_className_def)

lemma same_pipeline_insertBefore: "same_pipeline st (insertBefore st parent new ref)"
  by (simp add: same_pipeline_def insertBefore_def split: option.splits)

lemma same_pipeline_set_innerText: "same_pipeline st (set_innerText st n s)"
  by (simp add: same_pipeline_def set_innerText_def)

lemma same_pipeline_set_display: "same_pipeline st (set_display st n s)"
  by (simp add: same_pipeline_def set_display_def)

lemma same_pipeline_set_dataset: "same_pipeline st (set_dataset_translated st n s)"
  by (simp add: same_pipeline_def set_dataset_translated_def)

lemma same_pipeline_each: "same_pipeline st (showStoredSubtitle_each st originalP)"
  by (simp add: same_pipeline_def showStoredSubtitle_each_def createElement_def set_className_def
      insertBefore_def set_innerText_def set_display_def Let_def
      split: option.splits entry.splits prod.splits)

lemma same_pipeline_showStoredSubtitle: "same_pipeline st (showStoredSubtitle st)"
  by (simp add: showStoredSubtitle_def Let_def same_pipeline_refl same_pipeline_foldl same_pipeline_each)

lemma same_pipeline_checkAndShowSubtitles: "same_pipeline st (checkAndShowSubtitles st)"
  by (simp add: checkAndShowSubtitles_def same_pipeline_refl same_pipeline_showStoredSubtitle)

lemma same_pipeline_cleanup: "same_pipeline st (cleanup st)"
  by (simp add: same_pipeline_def cleanup_def)

lemma same_pipeline_await: "same_pipeline st (await_waitForElement st sel t k)"
  by (simp add: same_pipeline_def await_waitForElement_def Let_def)

lemma same_pipeline_observe: "same_pipeline st (observe st cb tgt opts)"
  by (simp add: same_pipeline_def observe_def)

lemma same_pipeline_initializeExtension: "same_pipeline st (initializeExtension st)"
  unfolding initializeExtension_def
  by (rule same_pipeline_trans [OF same_pipeline_cleanup same_pipeline_await])

lemma same_pipeline_resume: "same_pipeline st (initializeExtension_resume st job)"
  by (cases "(st, job)" rule: initializeExtension_resume.cases)
    (simp_all add: same_pipeline_def await_waitForElement_def observe_def Let_def)

lemma same_pipeline_run_microtasks: "same_pipeline st (run_microtasks st)"
proof (induction st rule: run_microtasks.induct)
  case (1 st)
  show ?case
  proof (cases "microtasks st")
    case Nil
    then show ?thesis
      by (simp add: run_microtasks.simps [of st] same_pipeline_refl)
  next
    case (Cons job rest)
    have a: "same_pipeline st (st\<lparr>microtasks := rest\<rparr>)"
      by (simp add: same_pipeline_def)
    have b: "same_pipeline (st\<lparr>microtasks := rest\<rparr>)
               (initializeExtension_resume (st\<lparr>microtasks := rest\<rparr>) job)"
      by (rule same_pipeline_resume)
    have c: "same_pipeline (initializeExtension_resume (st\<lparr>microtasks := rest\<rparr>) job)
               (run_microtasks (initializeExtension_resume (st\<lparr>microtasks := rest\<rparr>) job))"
      using 1 Cons by simp
    have "run_microtasks st = run_microtasks (initializeExtension_resume (st\<lparr>microtasks := rest\<rparr>) job)"
      using Cons by (simp add: run_microtasks.simps [of st])
    then show ?thesis
      using a b c by (metis same_pipeline_trans)
  qed
qed

lemma same_pipeline_setup: "same_pipeline st (setupNavigationDetection st)"
  by (simp add: same_pipeline_def setupNavigationDetection_def observe_def)

lemma same_pipeline_navigation: "same_pipeline st (navigation_callback st)"
  by (simp add: same_pipeline_def navigation_callback_def)

lemma same_pipeline_notify_waiters: "same_pipeline st (notify_waiters st records)"
  by (simp add: same_pipeline_def notify_waiters_def Let_def)

section \<open>At most one request for a caption text\<close>

lemma advance_refl: "advance st st"
  by (simp add: advance_def ready_kept_def ready_same_def)

lemma advance_trans: "advance a b \<Longrightarrow> advance b c \<Longrightarrow> advance a c"
  unfolding advance_def ready_kept_def ready_same_def by blast

lemma advance_same: "same_pipeline st st' \<Longrightarrow> advance st st'"
  by (simp add: advance_def ready_kept_def ready_same_def dedup_inv_def same_pipeline_def)

lemma advance_foldl: "(\<And>s x. advance s (f s x)) \<Longrightarrow> advance st (foldl f st xs)"
proof (induction xs arbitrary: st)
  case Nil
  show ?case by (simp add: advance_refl)
next
  case (Cons x xs)
  have "advance st (f st x)" by (rule Cons.prems)
  moreover have "advance (f st x) (foldl f (f st x) xs)"
    by (rule Cons.IH) (rule Cons.prems)
  ultimately show ?case
    using advance_trans by simp
qed

lemma advance_storeSubtitle: "advance st (storeSubtitle st originalP)"
  by (auto simp: advance_def ready_kept_def ready_same_def dedup_inv_def storeSubtitle_def Let_def
      list_all_iff)

lemma remove_nth_distinct:
  assumes "distinct xs" and "n < length xs"
  shows "distinct (remove_nth n xs)" and "xs ! n \<notin> set (remove_nth n xs)"
    and "set (remove_nth n xs) \<subseteq> set xs"
proof -
  have "xs = take n xs @ xs ! n # drop (Suc n) xs"
    using assms(2) by (rule id_take_nth_drop)
  then have "distinct (take n xs @ xs ! n # drop (Suc n) xs)"
    and "set xs = set (take n xs @ xs ! n # drop (Suc n) xs)"
    using assms(1) by simp_all
  then show "distinct (remove_nth n xs)" and "xs ! n \<notin> set (remove_nth n xs)"
    and "set (remove_nth n xs) \<subseteq> set xs"
    by (auto simp: remove_nth_def)
qed

text \<open>An answer arrives for a request that is still open: its text is \<open>Pending\<close>, not \<open>Ready\<close>.\<close>

lemma advance_answer:
  assumes "n < length (in_flight st)"
  shows "advance st
     (st\<lparr>in_flight := remove_nth n (in_flight st),
         translationCache := (translationCache st)(in_flight st ! n \<mapsto> Ready translatedText)\<rparr>)"
proof -
  let ?st' = "st\<lparr>in_flight := remove_nth n (in_flight st),
         translationCache := (translationCache st)(in_flight st ! n \<mapsto> Ready translatedText)\<rparr>"
  have kept: "ready_kept st ?st'"
    by (simp add: ready_kept_def)
  have "dedup_inv ?st' \<and> ready_same st ?st'" if inv: "dedup_inv st"
  proof -
    have d: "distinct (in_flight st)"
      and p: "\<forall>t \<in> set (in_flight st). translationCache st t = Some Pending"
      using inv by (simp_all add: dedup_inv_def list_all_iff)
    note r = remove_nth_distinct [OF d assms]
    have "translationCache st (in_flight st ! n) = Some Pending"
      using p assms by simp
    then have "ready_same st ?st'"
      by (auto simp: ready_same_def)
    moreover have "dedup_inv ?st'"
      using inv r p by (auto simp: dedup_inv_def list_all_iff)
    ultimately show ?thesis
      by simp
  qed
  then show ?thesis
    using kept by (simp add: advance_def)
qed

lemma advance_subtitle_added_node: "advance st (subtitle_added_node st n)"
proof -
  have "advance st (storeSubtitle (set_dataset_translated st i v) e)" for i v e
    by (rule advance_trans [OF advance_same [OF same_pipeline_set_dataset] advance_storeSubtitle])
  then show ?thesis
    by (simp add: subtitle_added_node_def advance_refl split: node.splits option.splits)
qed

lemma advance_subtitle_callback: "advance st (subtitle_callback st mutations)"
  unfolding subtitle_callback_def
  by (rule advance_foldl)
    (simp add: advance_refl advance_foldl advance_subtitle_added_node split: mutation_record.splits)

lemma advance_notify_observer: "advance st (notify_observer records st i)"
  by (simp add: notify_observer_def Let_def advance_refl advance_subtitle_callback
      advance_same same_pipeline_checkAndShowSubtitles same_pipeline_navigation
      split: option.splits callback.splits)

lemma advance_run_microtasks: "advance st (run_microtasks st)"
  by (rule advance_same) (rule same_pipeline_run_microtasks)

lemma advance_step: "advance st (step st ev)"
proof (cases ev)
  case (Mutation doc records)
  have a: "advance st (st\<lparr>document := doc\<rparr>)"
    by (rule advance_same) (simp add: same_pipeline_def)
  have b: "advance (st\<lparr>document := doc\<rparr>) (notify_waiters (st\<lparr>document := doc\<rparr>) records)"
    by (rule advance_same) (rule same_pipeline_notify_waiters)
  have c: "advance s (foldl (notify_observer records) s ns)" for s ns
    by (rule advance_foldl) (rule advance_notify_observer)
  show ?thesis
    unfolding Mutation step.simps Let_def
    by (rule advance_trans [OF advance_trans [OF advance_trans [OF a b] c] advance_run_microtasks])
next
  case (Navigate url)
  then show ?thesis
    by (simp add: advance_same same_pipeline_def)
next
  case Popstate
  then show ?thesis
    by (simp add: advance_refl advance_same same_pipeline_navigation)
next
  case DOMContentLoaded
  then show ?thesis
    by (simp add: advance_refl advance_same
        same_pipeline_trans [OF same_pipeline_initializeExtension same_pipeline_run_microtasks])
next
  case (TimerFires n)
  have "advance st (run_microtasks (initializeExtension s))" if "same_pipeline st s" for s
    by (rule advance_same)
      (rule same_pipeline_trans [OF that
        same_pipeline_trans [OF same_pipeline_initializeExtension same_pipeline_run_microtasks]])
  then show ?thesis
    using TimerFires
    by (simp add: Let_def advance_refl same_pipeline_def split: timer_callback.splits)
next
  case (WaitTimerFires n)
  have "advance st (run_microtasks s)" if "same_pipeline st s" for s
    by (rule advance_same) (rule same_pipeline_trans [OF that same_pipeline_run_microtasks])
  then show ?thesis
    using WaitTimerFires
    by (simp add: Let_def advance_refl same_pipeline_def split: prod.splits)
next
  case (FetchSettles n r)
  show ?thesis
  proof (cases "n < length (in_flight st)")
    case False
    then show ?thesis
      using FetchSettles by (simp add: advance_refl)
  next
    case True
    have a: "advance st (st\<lparr>in_flight := remove_nth n (in_flight st)\<rparr>)"
    proof -
      have "dedup_inv (st\<lparr>in_flight := remove_nth n (in_flight st)\<rparr>)" if inv: "dedup_inv st"
        using inv remove_nth_distinct [OF _ True]
        by (auto simp: dedup_inv_def list_all_iff)
      then show ?thesis
        by (simp add: advance_def ready_kept_def ready_same_def)
    qed
    have b: "advance st (checkAndShowSubtitles
        (st\<lparr>in_flight := remove_nth n (in_flight st),
            translationCache := (translationCache st)(in_flight st ! n \<mapsto> Ready t)\<rparr>))" for t
      by (rule advance_trans [OF advance_answer [OF True]
            advance_same [OF same_pipeline_checkAndShowSubtitles]])
    have c: "advance st (st\<lparr>in_flight := remove_nth n (in_flight st),
                            console := console st @ [''Translation error:'']\<rparr>)"
      by (rule advance_trans [OF a]) (simp add: advance_same same_pipeline_def)
    show ?thesis
    proof (cases "fetchTranslation_try r")
      case (Inl e)
      then show ?thesis
        using FetchSettles True c
        by (simp add: storeSubtitle_then_def fetchTranslation_def fetchTranslation_catch_def)
    next
      case (Inr translatedText)
      then show ?thesis
        using FetchSettles True a b
        by (simp add: storeSubtitle_then_def fetchTranslation_def fetchTranslation_catch_def)
    qed
  qed
qed

lemma advance_run: "advance st (run st events)"
  unfolding run_def by (rule advance_foldl) (rule advance_step)

lemma same_pipeline_content_script:
  "same_pipeline (empty_state doc url) (content_script loading doc url)"
proof -
  have "same_pipeline (empty_state doc url) s \<Longrightarrow>
        same_pipeline (empty_state doc url) (run_microtasks (setupNavigationDetection s))" for s
    by (metis same_pipeline_trans same_pipeline_setup same_pipeline_run_microtasks)
  then show ?thesis
    by (simp add: content_script_def Let_def same_pipeline_initializeExtension)
      (simp add: same_pipeline_def)
qed

lemma dedup_inv_content_script: "dedup_inv (content_script loading doc url)"
  using same_pipeline_content_script [of doc url loading]
  by (simp add: dedup_inv_def same_pipeline_def empty_state_def)

lemma dedup_inv_run: "dedup_inv (run (content_script loading doc url) events)"
  using advance_run [of "content_script loading doc url" events] dedup_inv_content_script
  by (simp add: advance_def)

lemma count_list_distinct: "distinct xs \<Longrightarrow> count_list xs x \<le> 1"
  by (induction xs) (auto simp: count_list_0_iff)

text \<open>
  C1. In a session, whatever the events, \<open>fetchTranslation\<close> is called at most once for
  a caption text \<open>T\<close>, and so it is when \<open>storeSubtitle\<close> is called on any list of nodes one
  after the other. The first submission of \<open>T\<close> stores the \<open>Pending\<close> placeholder and
  sends the request; a submission that finds an entry for its text changes nothing, so
  it sends none; and an entry that is \<open>Ready\<close> at some point of a session stays \<open>Ready\<close>,
  with the same translation, whatever events follow.
\<close>

theorem translation_requested_at_most_once:
  "count_list (requests (run (content_script loading doc url) events)) T \<le> 1
   \<and> count_list (requests (foldl storeSubtitle (empty_state doc url) nodes)) T \<le> 1
   \<and> (caption_text (innerText originalP) = T \<and> T \<noteq> [] \<and> translationCache st T = None \<longrightarrow>
        translationCache (storeSubtitle st originalP) T = Some Pending
        \<and> requests (storeSubtitle st originalP) = requests st @ [T])
   \<and> (translationCache st (caption_text (innerText originalP)) \<noteq> None \<longrightarrow>
        storeSubtitle st originalP = st)
   \<and> (translationCache (run (content_script loading doc url) events) T = Some (Ready x) \<longrightarrow>
        translationCache (run (content_script loading doc url) (events @ later)) T = Some (Ready x))"
proof -
  have "distinct (requests (run (content_script loading doc url) events))"
    using dedup_inv_run [of loading doc url events] by (simp add: dedup_inv_def)
  then have "count_list (requests (run (content_script loading doc url) events)) T \<le> 1"
    by (rule count_list_distinct)
  moreover have "advance (empty_state doc url) (foldl storeSubtitle (empty_state doc url) nodes)"
    by (rule advance_foldl) (rule advance_storeSubtitle)
  then have "distinct (requests (foldl storeSubtitle (empty_state doc url) nodes))"
    by (simp add: advance_def dedup_inv_def empty_state_def)
  then have "count_list (requests (foldl storeSubtitle (empty_state doc url) nodes)) T \<le> 1"
    by (rule count_list_distinct)
  moreover have "translationCache (run (content_script loading doc url) events) T = Some (Ready x) \<longrightarrow>
        translationCache (run (content_script loading doc url) (events @ later)) T = Some (Ready x)"
    using advance_run [of "run (content_script loading doc url) events" later]
      dedup_inv_run [of loading doc url events]
    by (simp add: advance_def ready_same_def run_append)
  ultimately show ?thesis
    by (simp add: storeSubtitle_def Let_def)
qed

text \<open>
  An instance: a caption listed twice in one batch and once more after its request
  failed; a first submission; a submission of a cached text; a caption whose
  translation arrived, listed again later.
\<close>

theorem translation_requested_at_most_once_witness:
  "count_list (requests (run (content_script False player_page ''/a'')
       [Mutation caption_page [ChildList 2 [ElementNode 3, ElementNode 3]],
        FetchSettles 0 FetchRejected,
        Mutation caption_page [ChildList 2 [ElementNode 3]]])) ''Guten Tag'' \<le> 1
   \<and> caption_text (innerText (p_element 2 ''Wie geht es'')) = ''Wie geht es''
   \<and> translationCache playing ''Wie geht es'' = None
   \<and> translationCache (storeSubtitle playing (p_element 2 ''Wie geht es'')) ''Wie geht es''
       = Some Pending
   \<and> requests (storeSubtitle playing (p_element 2 ''Wie geht es'')) = [''Wie geht es'']
   \<and> translationCache playing (caption_text (innerText (p_element 2 ''Guten Tag'')))
       = Some (Ready ''Good day'')
   \<and> storeSubtitle playing (p_element 2 ''Guten Tag'') = playing
   \<and> translationCache (run (content_script False player_page ''/a'')
         [Mutation caption_page [ChildList 2 [ElementNode 3]],
          FetchSettles 0 (fragments_response [''good day''])]) ''Guten Tag'' = Some (Ready ''Good day'')
   \<and> translationCache (run (content_script False player_page ''/a'')
         ([Mutation caption_page [ChildList 2 [ElementNode 3]],
           FetchSettles 0 (fragments_response [''good day''])]
          @ [Mutation caption_page [ChildList 2 [ElementNode 3]], TimerFires 0]))
         ''Guten Tag'' = Some (Ready ''Good day'')"
proof -
  have a: "caption_text (innerText (p_element 2 ''Wie geht es'')) = ''Wie geht es''"
    "caption_text (innerText (p_element 2 ''Guten Tag'')) = ''Guten Tag''"
    by (simp_all add: dom_defs)
  have b: "translationCache playing ''Wie geht es'' = None"
    "translationCache playing ''Guten Tag'' = Some (Ready ''Good day'')"
    "requests playing = []"
    by (simp_all add: playing_def empty_state_def)
  note t = translation_requested_at_most_once
  have c: "count_list (requests (run (content_script False player_page ''/a'')
       [Mutation caption_page [ChildList 2 [ElementNode 3, ElementNode 3]],
        FetchSettles 0 FetchRejected,
        Mutation caption_page [ChildList 2 [ElementNode 3]]])) ''Guten Tag'' \<le> 1"
    using t by blast
  have d: "translationCache (storeSubtitle playing (p_element 2 ''Wie geht es'')) ''Wie geht es''
       = Some Pending \<and> requests (storeSubtitle playing (p_element 2 ''Wie geht es''))
       = requests playing @ [''Wie geht es'']"
    using t [where T = "''Wie geht es''" and originalP = "p_element 2 ''Wie geht es''"
        and st = playing] a b
    by simp
  have e: "storeSubtitle playing (p_element 2 ''Guten Tag'') = playing"
    using t [where originalP = "p_element 2 ''Guten Tag''" and st = playing] a b
    by simp
  have r: "translationCache (run (content_script False player_page ''/a'')
         [Mutation caption_page [ChildList 2 [ElementNode 3]],
          FetchSettles 0 (fragments_response [''good day''])]) ''Guten Tag'' = Some (Ready ''Good day'')"
    by (simp add: caption_translated)
  have f: "translationCache (run (content_script False player_page ''/a'')
         ([Mutation caption_page [ChildList 2 [ElementNode 3]],
           FetchSettles 0 (fragments_response [''good day''])]
          @ [Mutation caption_page [ChildList 2 [ElementNode 3]], TimerFires 0]))
         ''Guten Tag'' = Some (Ready ''Good day'')"
    using t [where loading = False and doc = player_page and url = "''/a''"
        and T = "''Guten Tag''" and x = "''Good day''"
        and events = "[Mutation caption_page [ChildList 2 [ElementNode 3]],
          FetchSettles 0 (fragments_response [''good day''])]"
        and later = "[Mutation caption_page [ChildList 2 [ElementNode 3]], TimerFires 0]"] r
    by blast
  show ?thesis
    using a b c d e r f by simp
qed

section \<open>Empty captions and failed translations\<close>

text \<open>
  C10. When the caption text of the node (its \<open>innerText\<close>, trimmed, newlines replaced by
  spaces) is empty, \<open>storeSubtitle\<close> changes nothing: the cache is the same, with no
  entry made for the empty string, and no request is sent.
\<close>

theorem storeSubtitle_empty_text:
  "caption_text (innerText originalP) = [] \<Longrightarrow>
   storeSubtitle st originalP = st
   \<and> translationCache (storeSubtitle st originalP) = translationCache st
   \<and> requests (storeSubtitle st originalP) = requests st"
  by (simp add: storeSubtitle_def)

text \<open>An instance: a caption of white space only.\<close>

theorem storeSubtitle_empty_text_witness:
  "caption_text (innerText (p_element 2 '' \<newline>  '')) = []
   \<and> storeSubtitle playing (p_element 2 '' \<newline>  '') = playing
   \<and> translationCache (storeSubtitle playing (p_element 2 '' \<newline>  '')) [] = None
   \<and> requests (storeSubtitle playing (p_element 2 '' \<newline>  '')) = []"
proof -
  have a: "caption_text (innerText (p_element 2 '' \<newline>  '')) = []"
    by (simp add: dom_defs)
  have b: "translationCache playing [] = None" "requests playing = []"
    by (simp_all add: playing_def empty_state_def)
  show ?thesis
    using a b storeSubtitle_empty_text [of "p_element 2 '' \<newline>  ''" playing] by simp
qed

lemma index0_throws:
  "index0 v = Inl e \<longleftrightarrow> e = TypeError \<and> (v = JUndefined \<or> v = JNull)"
  by (cases v) auto

lemma array_map_index0_throws:
  "array_map index0 items = Inl e \<longleftrightarrow>
     e = TypeError \<and> (JUndefined \<in> set items \<or> JNull \<in> set items)"
proof (induction items)
  case Nil
  then show ?case by simp
next
  case (Cons v items)
  show ?case
  proof (cases "index0 v")
    case (Inl e')
    then show ?thesis
      using index0_throws [of v e'] by auto
  next
    case (Inr y)
    then have "v \<noteq> JUndefined" "v \<noteq> JNull"
      by auto
    then show ?thesis
      using Inr Cons.IH by (auto split: sum.splits)
  qed
qed

lemma fetchTranslation_try_throws:
  "fetchTranslation_try r = Inl e \<longleftrightarrow>
     r = FetchRejected \<and> e = NetworkError
   \<or> r = BodyNotJson \<and> e = SyntaxError
   \<or> (\<exists>result. r = Body result \<and> e = TypeError
         \<and> (case index0 result of
              Inl e' \<Rightarrow> True
            | Inr first \<Rightarrow>
                (case first of
                   JArr items \<Rightarrow> JUndefined \<in> set items \<or> JNull \<in> set items
                 | _ \<Rightarrow> True)))"
proof (cases r)
  case FetchRejected
  then show ?thesis by auto
next
  case BodyNotJson
  then show ?thesis by auto
next
  case (Body result)
  show ?thesis
  proof (cases "index0 result")
    case (Inl e')
    then show ?thesis
      using Body index0_throws [of result e'] by auto
  next
    case first: (Inr first)
    show ?thesis
    proof (cases "\<exists>items. first = JArr items")
      case False
      then show ?thesis
        using Body first by (cases first) auto
    next
      case True
      then obtain items where items: "first = JArr items"
        by blast
      show ?thesis
      proof (cases "array_map index0 items")
        case (Inl e')
        then show ?thesis
          using Body first items array_map_index0_throws [of items e'] by auto
      next
        case (Inr fragments)
        then show ?thesis
          using Body first items array_map_index0_throws [of items TypeError] by auto
      qed
    qed
  qed
qed

text \<open>
  C7, as the claim states it: whenever the translation call fails, a malformed response
  included, the entry of the text stays \<open>Pending\<close>. The body \<open>[["error"]]\<close> is no answer
  of the shape the code expects, and nothing in the \<open>try\<close> block throws on it:
  \<open>result[0]\<close> is the array \<open>["error"]\<close>, \<open>item[0]\<close> of the string \<open>"error"\<close> is \<open>"e"\<close>, and
  the text after line 160 is \<open>"E"\<close>. The handler stores it as the translation of the
  caption, and the refresh pass of a paused player shows it.
\<close>

theorem unthrown_response_counterexample:
  "fetchTranslation_try (Body (JArr [JArr [JStr ''error'']])) = Inr ''E''
   \<and> fetchTranslation (Body (JArr [JArr [JStr ''error'']])) = ''E''
   \<and> in_flight (run (content_script False player_page ''/a'')
        [Mutation caption_page [ChildList 2 [ElementNode 3]]]) = [''Guten Tag'']
   \<and> translationCache (run (content_script False player_page ''/a'')
        [Mutation caption_page [ChildList 2 [ElementNode 3]]]) = [''Guten Tag'' \<mapsto> Pending]
   \<and> translationCache (run (content_script False player_page ''/a'')
        [Mutation caption_page [ChildList 2 [ElementNode 3]],
         FetchSettles 0 (Body (JArr [JArr [JStr ''error'']]))]) = [''Guten Tag'' \<mapsto> Ready ''E'']
   \<and> translationCache pending_caption ''Wie geht es'' = Some Pending
   \<and> translationCache
        (storeSubtitle_then pending_caption ''Wie geht es''
           (fetchTranslation (Body (JArr [JArr [JStr ''error'']])))) ''Wie geht es''
       = Some (Ready ''E'')
   \<and> writes
        (storeSubtitle_then pending_caption ''Wie geht es''
           (fetchTranslation (Body (JArr [JArr [JStr ''error'']]))))
       = [SetInnerText 3 ''E'', SetDisplay 3 ''block'']"
proof -
  define S1 where
    "S1 = run (content_script False player_page ''/a'') [Mutation caption_page [ChildList 2 [ElementNode 3]]]"
  have S1: "in_flight S1 = [''Guten Tag'']" "translationCache S1 = [''Guten Tag'' \<mapsto> Pending]"
    "document S1 = update_element 3 (\<lambda>e. e\<lparr>dataset_translated := Some ''true''\<rparr>) caption_page"
    unfolding S1_def caption_requested by simp_all
  have parsed: "fetchTranslation_try (Body (JArr [JArr [JStr ''error'']])) = Inr ''E''"
    by (simp add: array_join_def sentence_case_def toLowerCase_def toUpperCase_def
        toLowerCase_char_def toUpperCase_char_def is_word_def is_space_def char_of_eq_iff)
  then have answer: "fetchTranslation (Body (JArr [JArr [JStr ''error'']])) = ''E''"
    by (simp add: fetchTranslation_def)
  have not_paused: "\<not> isPaused (update_element 3 (\<lambda>e. e\<lparr>dataset_translated := Some ''true''\<rparr>) caption_page)"
    by (simp add: isPaused_def querySelector_def sel_playpause_def has_class_def update_element_def
        caption_page_def div_element_def p_element_def)
  have "translationCache (step S1 (FetchSettles 0 (Body (JArr [JArr [JStr ''error'']])))) =
        [''Guten Tag'' \<mapsto> Ready ''E'']"
    by (simp add: S1 answer parsed fetchTranslation_catch_def not_paused storeSubtitle_then_def
        checkAndShowSubtitles_def remove_nth_def)
  then have stored: "translationCache (run (content_script False player_page ''/a'')
        [Mutation caption_page [ChildList 2 [ElementNode 3]],
         FetchSettles 0 (Body (JArr [JArr [JStr ''error'']]))]) = [''Guten Tag'' \<mapsto> Ready ''E'']"
    unfolding S1_def by (simp add: run_def)
  have pending: "translationCache pending_caption ''Wie geht es'' = Some Pending"
    by (simp add: pending_caption_def)
  have shown: "translationCache (storeSubtitle_then pending_caption ''Wie geht es'' ''E'') ''Wie geht es''
       = Some (Ready ''E'')"
    "writes (storeSubtitle_then pending_caption ''Wie geht es'' ''E'')
       = [SetInnerText 3 ''E'', SetDisplay 3 ''block'']"
    by (simp_all add: storeSubtitle_then_def checkAndShowSubtitles_def isPaused_def
        sel_playpause_def pending_caption_def dom_defs Let_def)
  show ?thesis
    using parsed answer S1(1,2) stored pending shown unfolding S1_def answer by simp
qed

text \<open>
  C7, amended. When the \<open>try\<close> block of \<open>fetchTranslation\<close> throws, \<open>fetchTranslation\<close>
  resolves to the empty string, and the handler of \<open>storeSubtitle\<close> leaves the state as it
  is: after a first submission of the text and the failed answer, the entry of the text
  is \<open>Pending\<close>, no \<open>Ready\<close> value is stored, and nothing is written to the page. So it is
  in every session: the text of a request without an answer is \<open>Pending\<close>, and a failed
  answer leaves the cache and the page as they are, and the error in the console. The
  \<open>try\<close> block throws in these cases and no other: the request is rejected, the body is
  no JSON, the value is \<open>null\<close>, its entry \<open>0\<close> is no array, or that array holds \<open>null\<close>.
\<close>

theorem failed_translation_stays_pending:
  "(fetchTranslation_try r = Inl e \<longleftrightarrow>
       r = FetchRejected \<and> e = NetworkError
     \<or> r = BodyNotJson \<and> e = SyntaxError
     \<or> (\<exists>result. r = Body result \<and> e = TypeError
           \<and> (case index0 result of
                Inl e' \<Rightarrow> True
              | Inr first \<Rightarrow>
                  (case first of
                     JArr items \<Rightarrow> JUndefined \<in> set items \<or> JNull \<in> set items
                   | _ \<Rightarrow> True))))
   \<and> (fetchTranslation_try r = Inl e \<longrightarrow>
   fetchTranslation r = []
   \<and> storeSubtitle_then st caption (fetchTranslation r) = st
   \<and> (caption_text (innerText originalP) = caption \<and> caption \<noteq> [] \<and> translationCache st caption = None \<longrightarrow>
        translationCache (storeSubtitle_then (storeSubtitle st originalP) caption (fetchTranslation r)) caption
          = Some Pending
        \<and> writes (storeSubtitle_then (storeSubtitle st originalP) caption (fetchTranslation r)) = writes st)
   \<and> (n < length (in_flight (run (content_script loading doc url) events)) \<longrightarrow>
        translationCache (run (content_script loading doc url) events)
          (in_flight (run (content_script loading doc url) events) ! n) = Some Pending
        \<and> translationCache (run (content_script loading doc url) (events @ [FetchSettles n r]))
            = translationCache (run (content_script loading doc url) events)
        \<and> writes (run (content_script loading doc url) (events @ [FetchSettles n r]))
            = writes (run (content_script loading doc url) events)
        \<and> console (run (content_script loading doc url) (events @ [FetchSettles n r]))
            = console (run (content_script loading doc url) events) @ [''Translation error:'']))"
proof (intro conjI impI)
  show "fetchTranslation_try r = Inl e \<longleftrightarrow>
       r = FetchRejected \<and> e = NetworkError
     \<or> r = BodyNotJson \<and> e = SyntaxError
     \<or> (\<exists>result. r = Body result \<and> e = TypeError
           \<and> (case index0 result of
                Inl e' \<Rightarrow> True
              | Inr first \<Rightarrow>
                  (case first of
                     JArr items \<Rightarrow> JUndefined \<in> set items \<or> JNull \<in> set items
                   | _ \<Rightarrow> True)))"
    by (rule fetchTranslation_try_throws)
next
  assume failed: "fetchTranslation_try r = Inl e"
  then show empty: "fetchTranslation r = []"
    by (simp add: fetchTranslation_def)
  then show "storeSubtitle_then st caption (fetchTranslation r) = st"
    by (simp add: storeSubtitle_then_def)
  {
    assume "caption_text (innerText originalP) = caption \<and> caption \<noteq> [] \<and> translationCache st caption = None"
    then show "translationCache (storeSubtitle_then (storeSubtitle st originalP) caption (fetchTranslation r)) caption
          = Some Pending"
      and "writes (storeSubtitle_then (storeSubtitle st originalP) caption (fetchTranslation r)) = writes st"
      by (simp_all add: empty storeSubtitle_then_def storeSubtitle_def)
  }
  define s where "s = run (content_script loading doc url) events"
  assume n: "n < length (in_flight (run (content_script loading doc url) events))"
  have "list_all (\<lambda>t. translationCache s t = Some Pending) (in_flight s)"
    unfolding s_def using dedup_inv_run [of loading doc url events] by (simp add: dedup_inv_def)
  then show "translationCache (run (content_script loading doc url) events)
          (in_flight (run (content_script loading doc url) events) ! n) = Some Pending"
    using n unfolding s_def by (simp add: list_all_length)
  have after: "run (content_script loading doc url) (events @ [FetchSettles n r]) = step s (FetchSettles n r)"
    unfolding s_def by (simp add: run_def)
  have "step s (FetchSettles n r) =
        s\<lparr>in_flight := remove_nth n (in_flight s), console := console s @ [''Translation error:'']\<rparr>"
    using n unfolding s_def [symmetric]
    by (simp add: empty failed storeSubtitle_then_def fetchTranslation_catch_def)
  then show "translationCache (run (content_script loading doc url) (events @ [FetchSettles n r]))
            = translationCache (run (content_script loading doc url) events)"
    and "writes (run (content_script loading doc url) (events @ [FetchSettles n r]))
            = writes (run (content_script loading doc url) events)"
    and "console (run (content_script loading doc url) (events @ [FetchSettles n r]))
            = console (run (content_script loading doc url) events) @ [''Translation error:'']"
    unfolding after by (simp_all add: s_def)
qed

text \<open>
  Instances: a rejected request, a body that is no JSON, an error object, and a
  fragment list that holds \<open>null\<close>; a first submission in a state, and a caption of a
  session whose request is rejected.
\<close>

theorem failed_translation_stays_pending_witness:
  "fetchTranslation_try FetchRejected = Inl NetworkError
   \<and> fetchTranslation_try BodyNotJson = Inl SyntaxError
   \<and> fetchTranslation_try (Body (JObj [(''error'', JStr ''quota'')])) = Inl TypeError
   \<and> fetchTranslation_try (Body (JArr [JArr [JNull]])) = Inl TypeError
   \<and> fetchTranslation FetchRejected = []
   \<and> fetchTranslation BodyNotJson = []
   \<and> fetchTranslation (Body (JObj [(''error'', JStr ''quota'')])) = []
   \<and> fetchTranslation (Body (JArr [JArr [JNull]])) = []
   \<and> caption_text (innerText (p_element 2 ''Wie geht es'')) = ''Wie geht es''
   \<and> translationCache playing ''Wie geht es'' = None
   \<and> translationCache
        (storeSubtitle_then (storeSubtitle playing (p_element 2 ''Wie geht es'')) ''Wie geht es''
           (fetchTranslation FetchRejected)) ''Wie geht es'' = Some Pending
   \<and> writes
        (storeSubtitle_then (storeSubtitle playing (p_element 2 ''Wie geht es'')) ''Wie geht es''
           (fetchTranslation FetchRejected)) = []
   \<and> in_flight (run (content_script False player_page ''/a'')
         [Mutation caption_page [ChildList 2 [ElementNode 3]]]) = [''Guten Tag'']
   \<and> translationCache (run (content_script False player_page ''/a'')
         ([Mutation caption_page [ChildList 2 [ElementNode 3]]] @ [FetchSettles 0 FetchRejected]))
       = [''Guten Tag'' \<mapsto> Pending]"
proof -
  have a: "fetchTranslation_try FetchRejected = Inl NetworkError"
    "fetchTranslation_try BodyNotJson = Inl SyntaxError"
    "fetchTranslation_try (Body (JObj [(''error'', JStr ''quota'')])) = Inl TypeError"
    "fetchTranslation_try (Body (JArr [JArr [JNull]])) = Inl TypeError"
    by simp_all
  have b: "caption_text (innerText (p_element 2 ''Wie geht es'')) = ''Wie geht es''"
    by (simp add: dom_defs)
  have c: "translationCache playing ''Wie geht es'' = None" "writes playing = []"
    by (simp_all add: playing_def empty_state_def)
  note t = failed_translation_stays_pending [where st = playing and caption = "''Wie geht es''"
      and originalP = "p_element 2 ''Wie geht es''", THEN conjunct2, rule_format]
  have d: "fetchTranslation FetchRejected = []" "fetchTranslation BodyNotJson = []"
    "fetchTranslation (Body (JObj [(''error'', JStr ''quota'')])) = []"
    "fetchTranslation (Body (JArr [JArr [JNull]])) = []"
    using t [OF a(1)] t [OF a(2)] t [OF a(3)] t [OF a(4)] by blast+
  have n: "''Wie geht es'' \<noteq> []"
    by simp
  have e: "translationCache
        (storeSubtitle_then (storeSubtitle playing (p_element 2 ''Wie geht es'')) ''Wie geht es''
           (fetchTranslation FetchRejected)) ''Wie geht es'' = Some Pending"
    using t [OF a(1)] b c(1) n by blast
  have f: "writes
        (storeSubtitle_then (storeSubtitle playing (p_element 2 ''Wie geht es'')) ''Wie geht es''
           (fetchTranslation FetchRejected)) = writes playing"
    using t [OF a(1)] b c(1) n by blast
  have g: "in_flight (run (content_script False player_page ''/a'')
         [Mutation caption_page [ChildList 2 [ElementNode 3]]]) = [''Guten Tag'']"
    "translationCache (run (content_script False player_page ''/a'')
         [Mutation caption_page [ChildList 2 [ElementNode 3]]]) = [''Guten Tag'' \<mapsto> Pending]"
    unfolding caption_requested by simp_all
  have h: "translationCache (run (content_script False player_page ''/a'')
         ([Mutation caption_page [ChildList 2 [ElementNode 3]]] @ [FetchSettles 0 FetchRejected]))
       = [''Guten Tag'' \<mapsto> Pending]"
    using t [OF a(1), where loading = False and doc = player_page
        and url = "''/a''" and n = 0
        and events = "[Mutation caption_page [ChildList 2 [ElementNode 3]]]"]
    unfolding g by simp
  show ?thesis
    using a b c(1) d e f [unfolded c(2)] g(1) h by blast
qed

section \<open>The refresh pass\<close>

text \<open>
  C2. When \<open>checkAndShowSubtitles\<close> runs and the playback control does not show the
  paused state (no control, or its class list without \<open>ardplayer-icon-play\<close>), it writes
  nothing to the page, whatever the cache holds: the state, the log of writes and the
  page are the same.
\<close>

theorem checkAndShowSubtitles_not_paused:
  "\<not> isPaused (document st) \<Longrightarrow>
   checkAndShowSubtitles st = st
   \<and> writes (checkAndShowSubtitles st) = writes st
   \<and> document (checkAndShowSubtitles st) = document st"
  by (simp add: checkAndShowSubtitles_def)

text \<open>An instance: playback runs, and the caption on the page has a translation.\<close>

theorem checkAndShowSubtitles_not_paused_witness:
  "\<not> isPaused (document playing)
   \<and> translationCache playing (caption_text ''Guten Tag'') = Some (Ready ''Good day'')
   \<and> checkAndShowSubtitles playing = playing
   \<and> writes (checkAndShowSubtitles playing) = []"
proof -
  have a: "\<not> isPaused (document playing)"
    by (simp add: isPaused_def playing_def sel_playpause_def dom_defs)
  have b: "writes playing = []"
    by (simp add: playing_def empty_state_def)
  have c: "translationCache playing (caption_text ''Guten Tag'') = Some (Ready ''Good day'')"
    by (simp add: playing_def dom_defs)
  show ?thesis
    using a b c checkAndShowSubtitles_not_paused [of playing] by simp
qed




subsection \<open>Where a pass writes\<close>



















lemma parentNode_fields [simp]:
  "parentNode (e\<lparr>innerText := s\<rparr>) = parentNode e"
  "parentNode (e\<lparr>display := s\<rparr>) = parentNode e"
  "parentNode (e\<lparr>classList := cs\<rparr>) = parentNode e"
  by (simp_all add: parentNode_def)


















section \<open>The outcome of the element waiter\<close>

lemma waiter_step_settled:
  "w_promise w \<noteq> Unsettled \<Longrightarrow> \<not> w_observing w \<Longrightarrow>
   w_promise (waiter_step w ev) = w_promise w \<and> \<not> w_observing (waiter_step w ev)"
  by (cases ev; cases "w_promise w")
    (simp_all add: waiter_timer_callback_def reject_def)

lemma waiter_run_settled:
  "w_promise w \<noteq> Unsettled \<Longrightarrow> \<not> w_observing w \<Longrightarrow>
   w_promise (foldl waiter_step w es) = w_promise w \<and> \<not> w_observing (foldl waiter_step w es)"
proof (induction es arbitrary: w)
  case Nil
  then show ?case by simp
next
  case (Cons ev es)
  have "w_promise (waiter_step w ev) = w_promise w \<and> \<not> w_observing (waiter_step w ev)"
    using Cons.prems by (rule waiter_step_settled)
  then show ?case
    using Cons.IH [of "waiter_step w ev"] Cons.prems by simp
qed

lemma waiter_run_waiting:
  "w_promise w = Unsettled \<Longrightarrow> w_observing w \<Longrightarrow> w_timer w \<Longrightarrow>
   w_promise (foldl waiter_step w es) = first_outcome (w_selector w) es
   \<and> w_observing (foldl waiter_step w es) = (first_outcome (w_selector w) es = Unsettled)"
proof (induction es arbitrary: w)
  case Nil
  then show ?case by simp
next
  case (Cons ev es)
  show ?case
  proof (cases ev)
    case TimerFired
    have "w_promise (waiter_step w ev) = Rejected TimeoutError" "\<not> w_observing (waiter_step w ev)"
      using Cons.prems TimerFired by (simp_all add: waiter_timer_callback_def reject_def)
    then show ?thesis
      using waiter_run_settled [of "waiter_step w ev" es] TimerFired by simp
  next
    case (Mutated doc)
    show ?thesis
    proof (cases "querySelector doc (w_selector w)")
      case None
      then have "waiter_step w ev = w"
        using Cons.prems Mutated by (simp add: waiter_observer_callback_def)
      then show ?thesis
        using Cons.IH [of w] Cons.prems Mutated None by simp
    next
      case (Some found)
      obtain element e where found: "found = (element, e)"
        by (cases found)
      have "w_promise (waiter_step w ev) = Resolved element" "\<not> w_observing (waiter_step w ev)"
        using Cons.prems Mutated Some found
        by (simp_all add: waiter_observer_callback_def resolve_def)
      then show ?thesis
        using waiter_run_settled [of "waiter_step w ev" es] Mutated Some found by simp
    qed
  qed
qed

lemma plain_page_container: "querySelector plain_page sel_untertitel = None"
  by (simp add: plain_page_def querySelector_def sel_untertitel_def has_class_def div_element_def)

lemma classed_page_container:
  "querySelector classed_page sel_untertitel = Some (9, div_element [''ardplayer-untertitel''])"
  by (simp add: classed_page_def querySelector_def sel_untertitel_def has_class_def div_element_def)

text \<open>
  C6, as the claim states it: the call resolves when a match appears before the timeout.
  The observer of lines 23-26 watches child lists only. On \<open>plain_page\<close> the script waits
  for the caption container; the class of element 9 is set, so the page has a match, and
  the only record of the change is one of an attribute. The call is not resolved, and
  when its timer fires it is rejected, with the match in the page; the script
  schedules the retry. Had the change come with a record of a child list, the call
  would have resolved with element 9.
\<close>

theorem class_change_counterexample:
  "querySelector plain_page sel_untertitel = None
   \<and> querySelector classed_page sel_untertitel = Some (9, div_element [''ardplayer-untertitel''])
   \<and> document (run (content_script False plain_page ''/a'')
        [Mutation classed_page [Attributes 9 ''class'']]) = classed_page
   \<and> map (\<lambda>(w, k). w_promise w) (waiters (run (content_script False plain_page ''/a'')
        [Mutation classed_page [Attributes 9 ''class'']])) = [Unsettled]
   \<and> document (run (content_script False plain_page ''/a'')
        [Mutation classed_page [Attributes 9 ''class''], WaitTimerFires 0]) = classed_page
   \<and> map (\<lambda>(w, k). w_promise w) (waiters (run (content_script False plain_page ''/a'')
        [Mutation classed_page [Attributes 9 ''class''], WaitTimerFires 0])) = [Rejected TimeoutError]
   \<and> timers (run (content_script False plain_page ''/a'')
        [Mutation classed_page [Attributes 9 ''class''], WaitTimerFires 0]) = [(2000, Retry)]
   \<and> map (\<lambda>(w, k). w_promise w) (waiters (run (content_script False plain_page ''/a'')
        [Mutation classed_page [ChildList 9 []]])) = [Resolved 9, Unsettled]"
proof -
  define S0 where "S0 = content_script False plain_page ''/a''"
  have S0: "S0 =
     (empty_state plain_page ''/a'')
       \<lparr>observers := [0],
        mutation_observers :=
          [\<lparr>ob_callback = UrlCallback, ob_observing = Some (Document, ChildListSubtree)\<rparr>],
        waiters :=
          [(\<lparr>w_selector = sel_untertitel, w_timeout = 10000, w_promise = Unsettled,
             w_observing = True, w_timer = True\<rparr>, AwaitContainer)],
        popstate_listener := True\<rparr>"
    unfolding S0_def
    by (simp add: content_script_def initializeExtension_def await_waitForElement_def
        waitForElement_def cleanup_def observe_def setupNavigationDetection_def
        plain_page_container empty_state_def run_microtasks.simps)
  define S1 where "S1 = S0\<lparr>document := classed_page\<rparr>"
  have s1: "step S0 (Mutation classed_page [Attributes 9 ''class'']) = S1"
    unfolding S1_def
    by (simp add: S0 callback_defs empty_state_def run_microtasks.simps)
  have S1: "waiters S1 =
          [(\<lparr>w_selector = sel_untertitel, w_timeout = 10000, w_promise = Unsettled,
             w_observing = True, w_timer = True\<rparr>, AwaitContainer)]"
    "microtasks S1 = []" "timers S1 = []" "document S1 = classed_page"
    unfolding S1_def S0 by (simp_all add: empty_state_def)
  define S2 where "S2 = step S1 (WaitTimerFires 0)"
  have S2: "waiters S2 =
          [(\<lparr>w_selector = sel_untertitel, w_timeout = 10000, w_promise = Rejected TimeoutError,
             w_observing = False, w_timer = False\<rparr>, AwaitContainer)]"
    "timers S2 = [(2000, Retry)]" "document S2 = classed_page"
    unfolding S2_def
    by (simp_all add: S1 settled_def waiter_timer_callback_def reject_def run_microtasks.simps)
  have r1: "run (content_script False plain_page ''/a'') [Mutation classed_page [Attributes 9 ''class'']] = S1"
    unfolding S0_def [symmetric] by (simp only: run_def foldl.simps s1)
  have r2: "run (content_script False plain_page ''/a'')
        [Mutation classed_page [Attributes 9 ''class''], WaitTimerFires 0] = S2"
    unfolding S0_def [symmetric] S2_def by (simp only: run_def foldl.simps s1)
  have button: "querySelector classed_page sel_playpause = None"
    by (simp add: classed_page_def querySelector_def sel_playpause_def has_class_def div_element_def)
  have node: "map_of classed_page 9 = Some (div_element [''ardplayer-untertitel''])"
    by (simp add: classed_page_def)
  have s3: "map (\<lambda>(w, k). w_promise w) (waiters (step S0 (Mutation classed_page [ChildList 9 []])))
        = [Resolved 9, Unsettled]"
    by (simp add: S0 callback_defs empty_state_def run_microtasks.simps classed_page_container
        button node waiter_observer_callback_def resolve_def await_waitForElement_def
        waitForElement_def observe_def)
  have r3: "map (\<lambda>(w, k). w_promise w) (waiters (run (content_script False plain_page ''/a'')
        [Mutation classed_page [ChildList 9 []]])) = [Resolved 9, Unsettled]"
    unfolding S0_def [symmetric] by (simp only: run_def foldl.simps s3)
  show ?thesis
    unfolding r1 r2 r3 by (simp add: S1 S2 plain_page_container classed_page_container)
qed

text \<open>
  C6, amended. For every selector and timeout: when \<open>waitForElement\<close> finds a match at
  the call, it resolves with the first match, and no observer of its own is connected.
  When it finds none, it resolves with the first match at the first batch of child-list
  mutations delivered with a match in the page, if the timer has not fired before, and
  it rejects with the timeout error when the timer fires first; in both outcomes its
  observer is disconnected, and before either it is connected. A batch that holds
  records of attributes only is not delivered to the observers of the pending calls.
\<close>

theorem waitForElement_outcome:
  "(querySelector doc selector = Some (element, e) \<longrightarrow>
      w_promise (foldl waiter_step (waitForElement doc selector timeout) es) = Resolved element
      \<and> \<not> w_observing (foldl waiter_step (waitForElement doc selector timeout) es))
   \<and> (querySelector doc selector = None \<longrightarrow>
      w_promise (foldl waiter_step (waitForElement doc selector timeout) es) = first_outcome selector es
      \<and> w_observing (foldl waiter_step (waitForElement doc selector timeout) es)
          = (first_outcome selector es = Unsettled))
   \<and> (list_all (\<lambda>r. case r of ChildList t added \<Rightarrow> False | Attributes t a \<Rightarrow> True) records \<longrightarrow>
      notify_waiters st records = st)"
proof (intro conjI impI)
  assume q: "querySelector doc selector = Some (element, e)"
  let ?w = "waitForElement doc selector timeout"
  have "w_promise ?w = Resolved element" "\<not> w_observing ?w"
    using q by (simp_all add: waitForElement_def resolve_def)
  then show "w_promise (foldl waiter_step ?w es) = Resolved element"
    and "\<not> w_observing (foldl waiter_step ?w es)"
    using waiter_run_settled [of ?w es] by simp_all
next
  assume q: "querySelector doc selector = None"
  let ?w = "waitForElement doc selector timeout"
  have "w_promise ?w = Unsettled" "w_observing ?w" "w_timer ?w" "w_selector ?w = selector"
    using q by (simp_all add: waitForElement_def)
  then show "w_promise (foldl waiter_step ?w es) = first_outcome selector es"
    and "w_observing (foldl waiter_step ?w es) = (first_outcome selector es = Unsettled)"
    using waiter_run_waiting [of ?w es] by simp_all
next
  assume "list_all (\<lambda>r. case r of ChildList t added \<Rightarrow> False | Attributes t a \<Rightarrow> True) records"
  then have "filter (observed (document st) (Document, ChildListSubtree)) records = []"
    by (induction records) (auto simp: observed_def split: mutation_record.splits)
  then show "notify_waiters st records = st"
    by (simp add: notify_waiters_def)
qed

text \<open>
  Instances: the container is there at the call; it appears at the second batch; the
  timer fires before it appears; a call still waiting; and a change of a class.
\<close>

theorem waitForElement_outcome_witness:
  "querySelector player_page sel_untertitel = Some (2, div_element [''ardplayer-untertitel''])
   \<and> w_promise (foldl waiter_step (waitForElement player_page sel_untertitel 10000) [TimerFired])
       = Resolved 2
   \<and> querySelector [] sel_untertitel = None
   \<and> w_promise (foldl waiter_step (waitForElement [] sel_untertitel 10000)
        [Mutated [], Mutated player_page, TimerFired]) = Resolved 2
   \<and> \<not> w_observing (foldl waiter_step (waitForElement [] sel_untertitel 10000)
        [Mutated [], Mutated player_page, TimerFired])
   \<and> w_promise (foldl waiter_step (waitForElement [] sel_untertitel 10000)
        [Mutated [], TimerFired, Mutated player_page]) = Rejected TimeoutError
   \<and> \<not> w_observing (foldl waiter_step (waitForElement [] sel_untertitel 10000)
        [Mutated [], TimerFired, Mutated player_page])
   \<and> w_observing (foldl waiter_step (waitForElement [] sel_untertitel 10000) [Mutated []])
   \<and> notify_waiters (content_script False plain_page ''/a'') [Attributes 9 ''class'']
       = content_script False plain_page ''/a''"
proof -
  note a = player_page_container
  note b = empty_page_container
  have f: "first_outcome sel_untertitel [Mutated [], Mutated player_page, TimerFired] = Resolved 2"
    "first_outcome sel_untertitel [Mutated [], TimerFired, Mutated player_page] = Rejected TimeoutError"
    "first_outcome sel_untertitel [Mutated []] = Unsettled"
    by (simp_all add: a b)
  note t = waitForElement_outcome
  have c: "w_promise (foldl waiter_step (waitForElement player_page sel_untertitel 10000) [TimerFired])
       = Resolved 2"
    using t [of player_page sel_untertitel 2 "div_element [''ardplayer-untertitel'']" 10000
        "[TimerFired]"] a by blast
  have d: "w_promise (foldl waiter_step (waitForElement [] sel_untertitel 10000)
        [Mutated [], Mutated player_page, TimerFired]) = Resolved 2"
    "\<not> w_observing (foldl waiter_step (waitForElement [] sel_untertitel 10000)
        [Mutated [], Mutated player_page, TimerFired])"
    using t [of "[]" sel_untertitel _ _ 10000 "[Mutated [], Mutated player_page, TimerFired]"] b
    unfolding f by simp_all
  have e: "w_promise (foldl waiter_step (waitForElement [] sel_untertitel 10000)
        [Mutated [], TimerFired, Mutated player_page]) = Rejected TimeoutError"
    "\<not> w_observing (foldl waiter_step (waitForElement [] sel_untertitel 10000)
        [Mutated [], TimerFired, Mutated player_page])"
    using t [of "[]" sel_untertitel _ _ 10000 "[Mutated [], TimerFired, Mutated player_page]"] b
    unfolding f by simp_all
  have g: "w_observing (foldl waiter_step (waitForElement [] sel_untertitel 10000) [Mutated []])"
    using t [of "[]" sel_untertitel _ _ 10000 "[Mutated []]"] b
    unfolding f by simp
  have h: "notify_waiters (content_script False plain_page ''/a'') [Attributes 9 ''class'']
       = content_script False plain_page ''/a''"
    using t [where records = "[Attributes 9 ''class'']"
        and st = "content_script False plain_page ''/a''"] by simp
  show ?thesis
    using a b c d e g h by blast
qed

section \<open>Timeouts of the initialization\<close>

lemma awaiting_container_start:
  assumes "querySelector doc sel_untertitel = None"
  shows "awaiting_container 0 (content_script False doc url)"
proof -
  let ?s = "setupNavigationDetection (initializeExtension (empty_state doc url))"
  have m: "microtasks ?s = []"
    using assms
    by (simp add: setupNavigationDetection_def observe_def initializeExtension_def
        await_waitForElement_def cleanup_def waitForElement_def empty_state_def)
  have "awaiting_container 0 ?s"
    using assms
    by (simp add: awaiting_container_def setupNavigationDetection_def observe_def
        initializeExtension_def await_waitForElement_def cleanup_def waitForElement_def
        empty_state_def)
  then show ?thesis
    by (simp add: content_script_def Let_def run_microtasks_Nil [OF m])
qed

lemma container_timeout_schedules_retry:
  assumes "awaiting_container k st"
  shows "step st (WaitTimerFires k) =
           st\<lparr>waiters := (waiters st)[k := (waiter_timer_callback (fst (waiters st ! k)), AwaitContainer)],
              console := console st @ [''Failed to initialize Bilingual ARD extension:''],
              timers := [(2000, Retry)]\<rparr>"
proof -
  obtain w where w: "waiters st ! k = (w, AwaitContainer)" "w_promise w = Unsettled" "w_timer w"
    using assms by (simp add: awaiting_container_def)
  let ?w' = "waiter_timer_callback w"
  let ?s1 = "st\<lparr>waiters := (waiters st)[k := (?w', AwaitContainer)],
               microtasks := microtasks st @ settled w ?w' AwaitContainer\<rparr>"
  have job: "microtasks ?s1 = [(AwaitContainer, Inl TimeoutError)]"
    using assms w by (simp add: awaiting_container_def settled_def waiter_timer_callback_def reject_def)
  let ?s2 = "initializeExtension_resume (?s1\<lparr>microtasks := []\<rparr>) (AwaitContainer, Inl TimeoutError)"
  have "run_microtasks ?s1 = run_microtasks ?s2"
    by (rule run_microtasks_Cons [OF job])
  also have "\<dots> = ?s2"
    by (rule run_microtasks_Nil) simp
  finally have "run_microtasks ?s1 = ?s2" .
  moreover have "step st (WaitTimerFires k) = run_microtasks ?s1"
    using assms w by (simp add: awaiting_container_def Let_def)
  ultimately show ?thesis
    using assms w by (simp add: awaiting_container_def)
qed

lemma retry_awaits_container_again:
  assumes "awaiting_container k st"
  shows "awaiting_container (Suc k) (step (step st (WaitTimerFires k)) (TimerFires 0))"
proof -
  define s1 where "s1 = step st (WaitTimerFires k)"
  have s1: "timers s1 = [(2000, Retry)]" "microtasks s1 = []" "length (waiters s1) = Suc k"
    "document s1 = document st" "observers s1 = observers st"
    unfolding s1_def container_timeout_schedules_retry [OF assms]
    using assms by (simp_all add: awaiting_container_def)
  define s2 where "s2 = initializeExtension
      (s1\<lparr>timers := [], console := console s1 @ [''Retrying extension initialization...'']\<rparr>)"
  have q: "querySelector (document st) sel_untertitel = None"
    using assms by (simp add: awaiting_container_def)
  have m: "microtasks s2 = []"
    unfolding s2_def using s1 q
    by (simp add: initializeExtension_def await_waitForElement_def cleanup_def waitForElement_def)
  have "step s1 (TimerFires 0) = run_microtasks s2"
    unfolding s2_def using s1 by (simp add: Let_def remove_nth_def)
  then have "step s1 (TimerFires 0) = s2"
    by (simp add: run_microtasks_Nil [OF m])
  moreover have "awaiting_container (Suc k) s2"
    unfolding s2_def using s1 q
    by (simp add: awaiting_container_def initializeExtension_def await_waitForElement_def
        cleanup_def waitForElement_def nth_append)
  ultimately show ?thesis
    unfolding s1_def by (simp only:)
qed

lemma container_timeouts_await:
  assumes "querySelector doc sel_untertitel = None"
  shows "awaiting_container k (run (content_script False doc url) (container_timeouts k))"
proof (induction k)
  case 0
  show ?case
    using assms by (simp add: run_def awaiting_container_start)
next
  case (Suc k)
  have "run (content_script False doc url) (container_timeouts (Suc k)) =
        step (step (run (content_script False doc url) (container_timeouts k)) (WaitTimerFires k))
          (TimerFires 0)"
    by (simp only: container_timeouts.simps run_append run_two)
  then show ?case
    using retry_awaits_container_again [OF Suc] by (simp only:)
qed

lemma callbacks_disconnect: "map ob_callback (disconnect obs i) = map ob_callback obs"
  by (simp add: disconnect_def map_update list_update_same_conv)

lemma callbacks_cleanup:
  "map ob_callback (foldl disconnect obs is) = map ob_callback obs"
  by (induction "is" arbitrary: obs) (simp_all add: callbacks_disconnect)

lemma retry_keeps_callbacks:
  assumes "awaiting_container k st"
  shows "map ob_callback (mutation_observers (step (step st (WaitTimerFires k)) (TimerFires 0))) =
         map ob_callback (mutation_observers st)"
proof -
  define s1 where "s1 = step st (WaitTimerFires k)"
  have s1: "timers s1 = [(2000, Retry)]" "microtasks s1 = []"
    "mutation_observers s1 = mutation_observers st" "document s1 = document st"
    unfolding s1_def container_timeout_schedules_retry [OF assms]
    using assms by (simp_all add: awaiting_container_def)
  define s2 where "s2 = initializeExtension
      (s1\<lparr>timers := [], console := console s1 @ [''Retrying extension initialization...'']\<rparr>)"
  have q: "querySelector (document st) sel_untertitel = None"
    using assms by (simp add: awaiting_container_def)
  have m: "microtasks s2 = []"
    unfolding s2_def using s1 q
    by (simp add: initializeExtension_def await_waitForElement_def cleanup_def waitForElement_def)
  have "step s1 (TimerFires 0) = run_microtasks s2"
    unfolding s2_def using s1 by (simp add: Let_def remove_nth_def)
  then have "step s1 (TimerFires 0) = s2"
    by (simp add: run_microtasks_Nil [OF m])
  moreover have "map ob_callback (mutation_observers s2) = map ob_callback (mutation_observers st)"
    unfolding s2_def
    by (simp add: initializeExtension_def await_waitForElement_def cleanup_def Let_def
        callbacks_cleanup s1)
  ultimately show ?thesis
    unfolding s1_def by (simp only:)
qed

text \<open>No caption observer and no playback observer exists in any of the rounds.\<close>

lemma container_timeouts_callbacks:
  assumes "querySelector doc sel_untertitel = None"
  shows "map ob_callback (mutation_observers (run (content_script False doc url) (container_timeouts k)))
         = [UrlCallback]"
proof (induction k)
  case 0
  have m: "microtasks (setupNavigationDetection (initializeExtension (empty_state doc url))) = []"
    using assms
    by (simp add: setupNavigationDetection_def observe_def initializeExtension_def
        await_waitForElement_def cleanup_def waitForElement_def empty_state_def)
  show ?case
    by (simp add: run_def content_script_def Let_def run_microtasks_Nil [OF m])
      (simp add: setupNavigationDetection_def observe_def initializeExtension_def
        await_waitForElement_def cleanup_def empty_state_def Let_def)
next
  case (Suc k)
  have "run (content_script False doc url) (container_timeouts (Suc k)) =
        step (step (run (content_script False doc url) (container_timeouts k)) (WaitTimerFires k))
          (TimerFires 0)"
    by (simp only: container_timeouts.simps run_append run_two)
  then show ?case
    using retry_keeps_callbacks [OF container_timeouts_await [OF assms]] Suc by simp
qed

lemma button_timeout_continues:
  assumes "microtasks st = []" and "querySelector (document st) sel_playpause = None"
  shows "step (run_microtasks (st\<lparr>microtasks := [(AwaitContainer, Inr subtitleContainer)]\<rparr>))
           (WaitTimerFires (length (waiters st))) =
         st\<lparr>mutation_observers := mutation_observers st @
              [\<lparr>ob_callback = SubtitleCallback,
                ob_observing = Some (Element subtitleContainer, ChildListSubtree)\<rparr>],
            observers := observers st @ [length (mutation_observers st)],
            waiters := waiters st @
              [(\<lparr>w_selector = sel_playpause, w_timeout = 5000, w_promise = Rejected TimeoutError,
                 w_observing = False, w_timer = False\<rparr>, AwaitButton)],
            console := console st @
              [''Play/pause button not found, continuing without it:'',
               ''Bilingual ARD extension initialized successfully'']\<rparr>"
proof -
  define w where "w = \<lparr>w_selector = sel_playpause, w_timeout = 5000, w_promise = Unsettled,
                 w_observing = True, w_timer = True\<rparr>"
  define s1 where "s1 = st\<lparr>mutation_observers := mutation_observers st @
              [\<lparr>ob_callback = SubtitleCallback,
                ob_observing = Some (Element subtitleContainer, ChildListSubtree)\<rparr>],
            observers := observers st @ [length (mutation_observers st)],
            waiters := waiters st @ [(w, AwaitButton)]\<rparr>"
  have resume: "initializeExtension_resume st (AwaitContainer, Inr subtitleContainer) = s1"
    unfolding s1_def w_def using assms
    by (simp add: observe_def await_waitForElement_def waitForElement_def)
  have "run_microtasks (st\<lparr>microtasks := [(AwaitContainer, Inr subtitleContainer)]\<rparr>) =
        run_microtasks (initializeExtension_resume
          (st\<lparr>microtasks := [(AwaitContainer, Inr subtitleContainer)], microtasks := []\<rparr>)
          (AwaitContainer, Inr subtitleContainer))"
    by (rule run_microtasks_Cons) simp
  also have "st\<lparr>microtasks := [(AwaitContainer, Inr subtitleContainer)], microtasks := []\<rparr> = st"
    using assms by simp
  also have "run_microtasks (initializeExtension_resume st (AwaitContainer, Inr subtitleContainer)) = s1"
    unfolding resume by (rule run_microtasks_Nil) (simp add: s1_def assms)
  finally have r: "run_microtasks (st\<lparr>microtasks := [(AwaitContainer, Inr subtitleContainer)]\<rparr>) = s1" .
  define s2 where "s2 = s1\<lparr>waiters := (waiters s1)[length (waiters st) := (waiter_timer_callback w, AwaitButton)],
                microtasks := [(AwaitButton, Inl TimeoutError)]\<rparr>"
  have step: "step s1 (WaitTimerFires (length (waiters st))) = run_microtasks s2"
    unfolding s2_def
    by (simp add: s1_def w_def Let_def settled_def waiter_timer_callback_def reject_def assms)
  have "run_microtasks s2 =
        run_microtasks (initializeExtension_resume (s2\<lparr>microtasks := []\<rparr>) (AwaitButton, Inl TimeoutError))"
    by (rule run_microtasks_Cons) (simp add: s2_def)
  also have "\<dots> = initializeExtension_resume (s2\<lparr>microtasks := []\<rparr>) (AwaitButton, Inl TimeoutError)"
    by (rule run_microtasks_Nil) simp
  finally have r2: "run_microtasks s2 =
      initializeExtension_resume (s2\<lparr>microtasks := []\<rparr>) (AwaitButton, Inl TimeoutError)" .
  show ?thesis
    unfolding r step r2
    by (simp add: s2_def s1_def w_def waiter_timer_callback_def reject_def assms)
qed

lemma loaded_without_button:
  "content_script False captions_page url =
     run_microtasks
       ((setupNavigationDetection (initializeExtension (empty_state captions_page url)))
          \<lparr>microtasks := [(AwaitContainer, Inr 2)]\<rparr>)"
  by (simp add: content_script_def initializeExtension_def await_waitForElement_def
      waitForElement_def cleanup_def observe_def setupNavigationDetection_def resolve_def
      captions_page_container empty_state_def)

text \<open>After the timeout of the wait for the playback control, a new caption is still requested.\<close>

lemma capture_after_button_timeout:
  "requests (run (content_script False captions_page ''/a'')
      [WaitTimerFires 1, Mutation captured_page [ChildList 2 [ElementNode 3]]]) = [''Guten Tag'']"
proof -
  define st where
    "st = (setupNavigationDetection (initializeExtension (empty_state captions_page ''/a'')))
            \<lparr>microtasks := []\<rparr>"
  have st: "mutation_observers st =
       [\<lparr>ob_callback = UrlCallback, ob_observing = Some (Document, ChildListSubtree)\<rparr>]"
    "observers st = [0]"
    "waiters st =
       [(\<lparr>w_selector = sel_untertitel, w_timeout = 10000, w_promise = Resolved 2,
          w_observing = False, w_timer = False\<rparr>, AwaitContainer)]"
    "microtasks st = []" "document st = captions_page" "translationCache st = Map.empty"
    "requests st = []" "location_href st = ''/a''" "currentUrl st = ''/a''"
    unfolding st_def
    by (simp_all add: initializeExtension_def await_waitForElement_def waitForElement_def
        cleanup_def observe_def setupNavigationDetection_def resolve_def captions_page_container
        empty_state_def)
  have q: "querySelector (document st) sel_playpause = None"
    by (simp add: st captions_page_button)
  define S1 where "S1 = step (content_script False captions_page ''/a'') (WaitTimerFires 1)"
  have "content_script False captions_page ''/a'' =
        run_microtasks (st\<lparr>microtasks := [(AwaitContainer, Inr 2)]\<rparr>)"
    unfolding loaded_without_button st_def by simp
  then have "S1 = step (run_microtasks (st\<lparr>microtasks := [(AwaitContainer, Inr 2)]\<rparr>))
                    (WaitTimerFires (length (waiters st)))"
    unfolding S1_def by (simp add: st)
  then have S1: "mutation_observers S1 =
       [\<lparr>ob_callback = UrlCallback, ob_observing = Some (Document, ChildListSubtree)\<rparr>,
        \<lparr>ob_callback = SubtitleCallback, ob_observing = Some (Element 2, ChildListSubtree)\<rparr>]"
    "waiters S1 =
       [(\<lparr>w_selector = sel_untertitel, w_timeout = 10000, w_promise = Resolved 2,
          w_observing = False, w_timer = False\<rparr>, AwaitContainer),
        (\<lparr>w_selector = sel_playpause, w_timeout = 5000, w_promise = Rejected TimeoutError,
          w_observing = False, w_timer = False\<rparr>, AwaitButton)]"
    "microtasks S1 = []" "translationCache S1 = Map.empty" "requests S1 = []"
    "location_href S1 = ''/a''" "currentUrl S1 = ''/a''"
    unfolding button_timeout_continues [OF st(4) q] by (simp_all add: st)
  have "requests (step S1 (Mutation captured_page [ChildList 2 [ElementNode 3]])) = [''Guten Tag'']"
    by (simp add: S1 callback_defs captured_page_facts subtitle_added_node_def storeSubtitle_def
        set_dataset_translated_def falsy_def navigation_callback_def run_microtasks_Nil
        caption_text_def trim_def is_space_def p_element_fields)
  then show ?thesis
    unfolding S1_def by (simp add: run_def)
qed

text \<open>
  C9. On a page without the caption container, after any number \<open>k\<close> of rounds of
  timeout and retry the script waits for the container again, with no caption observer
  and no playback observer made, and the timeout of that wait schedules the next retry
  with the same delay of 2000: the delay does not grow and no round is the last. A timeout of the wait for the playback control schedules
  nothing: the caption observer made before the wait stays connected to the container,
  no timer is added, and the initialization logs its success.
\<close>

theorem container_timeout_retries_button_timeout_continues:
  "(querySelector doc sel_untertitel = None \<longrightarrow>
      awaiting_container k (run (content_script False doc url) (container_timeouts k))
      \<and> map ob_callback (mutation_observers (run (content_script False doc url) (container_timeouts k)))
          = [UrlCallback]
      \<and> timers (step (run (content_script False doc url) (container_timeouts k)) (WaitTimerFires k))
          = [(2000, Retry)])
   \<and> (microtasks st = [] \<and> querySelector (document st) sel_playpause = None \<longrightarrow>
      step (run_microtasks (st\<lparr>microtasks := [(AwaitContainer, Inr subtitleContainer)]\<rparr>))
        (WaitTimerFires (length (waiters st))) =
      st\<lparr>mutation_observers := mutation_observers st @
           [\<lparr>ob_callback = SubtitleCallback,
             ob_observing = Some (Element subtitleContainer, ChildListSubtree)\<rparr>],
         observers := observers st @ [length (mutation_observers st)],
         waiters := waiters st @
           [(\<lparr>w_selector = sel_playpause, w_timeout = 5000, w_promise = Rejected TimeoutError,
              w_observing = False, w_timer = False\<rparr>, AwaitButton)],
         console := console st @
           [''Play/pause button not found, continuing without it:'',
            ''Bilingual ARD extension initialized successfully'']\<rparr>)"
proof (intro conjI impI)
  assume q: "querySelector doc sel_untertitel = None"
  show a: "awaiting_container k (run (content_script False doc url) (container_timeouts k))"
    by (rule container_timeouts_await [OF q])
  show "map ob_callback (mutation_observers (run (content_script False doc url) (container_timeouts k)))
          = [UrlCallback]"
    by (rule container_timeouts_callbacks [OF q])
  show "timers (step (run (content_script False doc url) (container_timeouts k)) (WaitTimerFires k))
          = [(2000, Retry)]"
    unfolding container_timeout_schedules_retry [OF a] by simp
next
  assume "microtasks st = [] \<and> querySelector (document st) sel_playpause = None"
  then show "step (run_microtasks (st\<lparr>microtasks := [(AwaitContainer, Inr subtitleContainer)]\<rparr>))
        (WaitTimerFires (length (waiters st))) =
      st\<lparr>mutation_observers := mutation_observers st @
           [\<lparr>ob_callback = SubtitleCallback,
             ob_observing = Some (Element subtitleContainer, ChildListSubtree)\<rparr>],
         observers := observers st @ [length (mutation_observers st)],
         waiters := waiters st @
           [(\<lparr>w_selector = sel_playpause, w_timeout = 5000, w_promise = Rejected TimeoutError,
              w_observing = False, w_timer = False\<rparr>, AwaitButton)],
         console := console st @
           [''Play/pause button not found, continuing without it:'',
            ''Bilingual ARD extension initialized successfully'']\<rparr>"
    using button_timeout_continues [of st subtitleContainer] by simp
qed

text \<open>
  Instances: three rounds on an empty page, and a page with the caption container
  and no playback control, where a caption added after the timeout is requested.
\<close>

theorem container_timeout_retries_button_timeout_continues_witness:
  "querySelector [] sel_untertitel = None
   \<and> awaiting_container 3 (run (content_script False [] ''/a'') (container_timeouts 3))
   \<and> timers (step (run (content_script False [] ''/a'') (container_timeouts 3)) (WaitTimerFires 3))
       = [(2000, Retry)]
   \<and> microtasks (empty_state captions_page ''/a'') = []
   \<and> querySelector (document (empty_state captions_page ''/a'')) sel_playpause = None
   \<and> timers (step (run_microtasks
         ((empty_state captions_page ''/a'')\<lparr>microtasks := [(AwaitContainer, Inr 2)]\<rparr>))
         (WaitTimerFires 0)) = []
   \<and> mutation_observers (step (run_microtasks
         ((empty_state captions_page ''/a'')\<lparr>microtasks := [(AwaitContainer, Inr 2)]\<rparr>))
         (WaitTimerFires 0)) =
       [\<lparr>ob_callback = SubtitleCallback, ob_observing = Some (Element 2, ChildListSubtree)\<rparr>]
   \<and> requests (run (content_script False captions_page ''/a'')
         [WaitTimerFires 1, Mutation captured_page [ChildList 2 [ElementNode 3]]]) = [''Guten Tag'']"
proof -
  have a: "querySelector [] sel_untertitel = None"
    by (rule empty_page_container)
  have b: "microtasks (empty_state captions_page ''/a'') = []"
    "querySelector (document (empty_state captions_page ''/a'')) sel_playpause = None"
    "waiters (empty_state captions_page ''/a'') = []"
    "timers (empty_state captions_page ''/a'') = []"
    "mutation_observers (empty_state captions_page ''/a'') = []"
    by (simp_all add: empty_state_def captions_page_button)
  note t1 = container_timeout_retries_button_timeout_continues
    [of "[]" 3 "''/a''" "empty_state captions_page ''/a''" 2]
  have c: "awaiting_container 3 (run (content_script False [] ''/a'') (container_timeouts 3))"
    "timers (step (run (content_script False [] ''/a'') (container_timeouts 3)) (WaitTimerFires 3))
       = [(2000, Retry)]"
    using t1 a by blast+
  have d: "step (run_microtasks
         ((empty_state captions_page ''/a'')\<lparr>microtasks := [(AwaitContainer, Inr 2)]\<rparr>))
         (WaitTimerFires 0) =
      (empty_state captions_page ''/a'')
        \<lparr>mutation_observers := mutation_observers (empty_state captions_page ''/a'') @
           [\<lparr>ob_callback = SubtitleCallback, ob_observing = Some (Element 2, ChildListSubtree)\<rparr>],
         observers := observers (empty_state captions_page ''/a'') @
           [length (mutation_observers (empty_state captions_page ''/a''))],
         waiters := waiters (empty_state captions_page ''/a'') @
           [(\<lparr>w_selector = sel_playpause, w_timeout = 5000, w_promise = Rejected TimeoutError,
              w_observing = False, w_timer = False\<rparr>, AwaitButton)],
         console := console (empty_state captions_page ''/a'') @
           [''Play/pause button not found, continuing without it:'',
            ''Bilingual ARD extension initialized successfully'']\<rparr>"
    using t1 b(1,2) unfolding b(3) list.size by blast
  show ?thesis
    using a b(1,2) c capture_after_button_timeout unfolding d by (simp add: b)
qed

section \<open>Navigation after a restart\<close>

text \<open>
  C4. The claim: in every session both navigation signals restart the session. On a page
  with the caption container and the playback control, the first change of location
  followed by a mutation schedules the restart. The restart runs \<open>cleanup\<close>, which
  disconnects the observer of \<open>setupNavigationDetection\<close> with the others, and nothing
  connects it again: after the second change of location a mutation schedules nothing
  and \<open>currentUrl\<close> stays behind. The \<open>popstate\<close> listener still schedules a restart.
\<close>

theorem second_navigation_undetected:
  "timers (run (content_script False player_page ''/a'')
             [Navigate ''/b'', Mutation player_page [ChildList 2 []]]) = [(500, Initialize)]
   \<and> map ob_observing (mutation_observers (run (content_script False player_page ''/a'')
             [Navigate ''/b'', Mutation player_page [ChildList 2 []], TimerFires 0]))
       = [None, None, None, Some (Element 2, ChildListSubtree), Some (Element 1, ClassAttribute)]
   \<and> timers (run (content_script False player_page ''/a'')
             [Navigate ''/b'', Mutation player_page [ChildList 2 []], TimerFires 0,
              Navigate ''/c'', Mutation player_page [ChildList 2 []]]) = []
   \<and> currentUrl (run (content_script False player_page ''/a'')
             [Navigate ''/b'', Mutation player_page [ChildList 2 []], TimerFires 0,
              Navigate ''/c'', Mutation player_page [ChildList 2 []]]) = ''/b''
   \<and> location_href (run (content_script False player_page ''/a'')
             [Navigate ''/b'', Mutation player_page [ChildList 2 []], TimerFires 0,
              Navigate ''/c'', Mutation player_page [ChildList 2 []]]) = ''/c''
   \<and> timers (run (content_script False player_page ''/a'')
             [Navigate ''/b'', Mutation player_page [ChildList 2 []], TimerFires 0,
              Navigate ''/c'', Mutation player_page [ChildList 2 []], Popstate]) = [(500, Initialize)]"
proof -
  define S0 where "S0 = content_script False player_page ''/a''"
  have S0: "observers S0 = [0, 1, 2]"
    "mutation_observers S0 =
       [\<lparr>ob_callback = UrlCallback, ob_observing = Some (Document, ChildListSubtree)\<rparr>,
        \<lparr>ob_callback = SubtitleCallback, ob_observing = Some (Element 2, ChildListSubtree)\<rparr>,
        \<lparr>ob_callback = PlayPauseCallback, ob_observing = Some (Element 1, ClassAttribute)\<rparr>]"
    "waiters S0 =
       [(\<lparr>w_selector = sel_untertitel, w_timeout = 10000, w_promise = Resolved 2,
          w_observing = False, w_timer = False\<rparr>, AwaitContainer),
        (\<lparr>w_selector = sel_playpause, w_timeout = 5000, w_promise = Resolved 1,
          w_observing = False, w_timer = False\<rparr>, AwaitButton)]"
    "microtasks S0 = []" "timers S0 = []" "currentUrl S0 = ''/a''" "document S0 = player_page"
    unfolding S0_def loaded by (simp_all add: empty_state_def)
  define S1 where "S1 = step (step S0 (Navigate ''/b'')) (Mutation player_page [ChildList 2 []])"
  have S1: "S1 = S0\<lparr>location_href := ''/b'', currentUrl := ''/b'', timers := [(500, Initialize)]\<rparr>"
    unfolding S1_def
    by (simp add: S0 callback_defs player_page_2 run_microtasks_Nil)
  have S1p: "observers S1 = [0, 1, 2]" "mutation_observers S1 = mutation_observers S0"
    "waiters S1 = waiters S0" "microtasks S1 = []" "timers S1 = [(500, Initialize)]"
    "document S1 = player_page"
    unfolding S1 by (simp_all add: S0)
  define S2 where "S2 = step S1 (TimerFires 0)"
  have S2: "S2 = S1\<lparr>timers := [], observers := [3, 4],
      mutation_observers :=
        [\<lparr>ob_callback = UrlCallback, ob_observing = None\<rparr>,
         \<lparr>ob_callback = SubtitleCallback, ob_observing = None\<rparr>,
         \<lparr>ob_callback = PlayPauseCallback, ob_observing = None\<rparr>,
         \<lparr>ob_callback = SubtitleCallback, ob_observing = Some (Element 2, ChildListSubtree)\<rparr>,
         \<lparr>ob_callback = PlayPauseCallback, ob_observing = Some (Element 1, ClassAttribute)\<rparr>],
      waiters := waiters S0 @
        [(\<lparr>w_selector = sel_untertitel, w_timeout = 10000, w_promise = Resolved 2,
           w_observing = False, w_timer = False\<rparr>, AwaitContainer),
         (\<lparr>w_selector = sel_playpause, w_timeout = 5000, w_promise = Resolved 1,
           w_observing = False, w_timer = False\<rparr>, AwaitButton)],
      console := console S1 @ [''Bilingual ARD extension initialized successfully'']\<rparr>"
    unfolding S2_def
    by (simp add: S1p S0 remove_nth_def initializeExtension_def cleanup_def disconnect_def
        await_waitForElement_def waitForElement_def resolve_def observe_def
        player_page_container player_page_button run_microtasks.simps Let_def)
  have S2p: "mutation_observers S2 =
        [\<lparr>ob_callback = UrlCallback, ob_observing = None\<rparr>,
         \<lparr>ob_callback = SubtitleCallback, ob_observing = None\<rparr>,
         \<lparr>ob_callback = PlayPauseCallback, ob_observing = None\<rparr>,
         \<lparr>ob_callback = SubtitleCallback, ob_observing = Some (Element 2, ChildListSubtree)\<rparr>,
         \<lparr>ob_callback = PlayPauseCallback, ob_observing = Some (Element 1, ClassAttribute)\<rparr>]"
    "waiters S2 = waiters S0 @
        [(\<lparr>w_selector = sel_untertitel, w_timeout = 10000, w_promise = Resolved 2,
           w_observing = False, w_timer = False\<rparr>, AwaitContainer),
         (\<lparr>w_selector = sel_playpause, w_timeout = 5000, w_promise = Resolved 1,
           w_observing = False, w_timer = False\<rparr>, AwaitButton)]"
    "microtasks S2 = []" "timers S2 = []" "document S2 = player_page" "currentUrl S2 = ''/b''"
    unfolding S2 by (simp_all add: S1p) (simp add: S1)
  define S3 where "S3 = step (step S2 (Navigate ''/c'')) (Mutation player_page [ChildList 2 []])"
  have S3: "S3 = S2\<lparr>location_href := ''/c''\<rparr>"
    unfolding S3_def
    by (simp add: S2p S0 callback_defs player_page_2 run_microtasks_Nil)
  have r1: "run (content_script False player_page ''/a'')
             [Navigate ''/b'', Mutation player_page [ChildList 2 []]] = S1"
    by (simp only: run_def foldl.simps S1_def S0_def)
  have r2: "run (content_script False player_page ''/a'')
             [Navigate ''/b'', Mutation player_page [ChildList 2 []], TimerFires 0] = S2"
    by (simp only: run_def foldl.simps S2_def S1_def S0_def)
  have r3: "run (content_script False player_page ''/a'')
             [Navigate ''/b'', Mutation player_page [ChildList 2 []], TimerFires 0,
              Navigate ''/c'', Mutation player_page [ChildList 2 []]] = S3"
    by (simp only: run_def foldl.simps S3_def S2_def S1_def S0_def)
  have popstate: "popstate_listener S3"
    unfolding S3 S2 S1 S0_def loaded by simp
  have r4: "run (content_script False player_page ''/a'')
             [Navigate ''/b'', Mutation player_page [ChildList 2 []], TimerFires 0,
              Navigate ''/c'', Mutation player_page [ChildList 2 []], Popstate] = step S3 Popstate"
    by (simp only: run_def foldl.simps S3_def S2_def S1_def S0_def)
  have "timers (step S3 Popstate) = [(500, Initialize)]"
    using popstate by (simp add: navigation_callback_def) (simp add: S3 S2p)
  then show ?thesis
    unfolding r1 r2 r3 r4 by (simp add: S3 S2p S1p)
qed

end
